theory Spec2Isabelle
  imports Main "HOL-Library.Multiset" "HOL-Library.List_Lexorder"
begin

section \<open>Python strings\<close>

text \<open>
  A Python \<open>str\<close> is a sequence of Unicode code points; it is modelled as a list of
  natural numbers.  \<open>str\<close> turns an ASCII literal into such a list.  Whitespace is the
  whole class of \<open>str.isspace\<close>.  The word characters and the case pairs of the
  \<open>re\<close> module are written out for the code points below 256 (Latin-1), which covers
  the letters of the rule patterns and of the label tables; the three punctuation marks of
  the templates beyond that range (U+2013, U+2014, U+2022) are not word characters.
  Strings are compared as Python compares them, lexicographically by code point.
\<close>

type_synonym pystr = "nat list"

definition str :: "string \<Rightarrow> pystr" where
  "str s = map of_char s"

text \<open>
  \<open>str.isspace\<close>, which is also the class \<open>\\s\<close> and the set that \<open>str.strip\<close>
  removes: the controls U+0009 to U+000D and U+001C to U+001F, the space, U+0085, U+00A0,
  U+1680, U+2000 to U+200A, U+2028, U+2029, U+202F, U+205F and U+3000.
\<close>

definition is_space :: "nat \<Rightarrow> bool" where
  "is_space c =
     ((9 \<le> c \<and> c \<le> 13) \<or> (28 \<le> c \<and> c \<le> 32) \<or> c = 133 \<or> c = 160 \<or> c = 5760 \<or>
      (8192 \<le> c \<and> c \<le> 8202) \<or> c = 8232 \<or> c = 8233 \<or> c = 8239 \<or> c = 8287 \<or>
      c = 12288)"

text \<open>The class \<open>\\w\<close>: alphanumeric code points and the underscore.\<close>

definition is_word :: "nat \<Rightarrow> bool" where
  "is_word c =
     ((48 \<le> c \<and> c \<le> 57) \<or> (65 \<le> c \<and> c \<le> 90) \<or> c = 95 \<or> (97 \<le> c \<and> c \<le> 122) \<or>
      c = 170 \<or> c = 178 \<or> c = 179 \<or> c = 181 \<or> c = 185 \<or> c = 186 \<or>
      (188 \<le> c \<and> c \<le> 190) \<or> (192 \<le> c \<and> c \<le> 214) \<or> (216 \<le> c \<and> c \<le> 246) \<or>
      (248 \<le> c \<and> c \<le> 255))"

text \<open>The class \<open>\\d\<close>.\<close>

definition is_digit :: "nat \<Rightarrow> bool" where
  "is_digit c = (48 \<le> c \<and> c \<le> 57)"

text \<open>Lower-casing, as \<open>re.IGNORECASE\<close> applies it to both sides of a comparison.\<close>

definition lower :: "nat \<Rightarrow> nat" where
  "lower c =
     (if (65 \<le> c \<and> c \<le> 90) \<or> (192 \<le> c \<and> c \<le> 214) \<or> (216 \<le> c \<and> c \<le> 222)
      then c + 32 else c)"

text \<open>\<open>s.strip()\<close>.\<close>

definition strip :: "pystr \<Rightarrow> pystr" where
  "strip s = rev (dropWhile is_space (rev (dropWhile is_space s)))"

text \<open>\<open>s.startswith(p)\<close> and \<open>p in s\<close>.\<close>

fun startswith :: "pystr \<Rightarrow> pystr \<Rightarrow> bool" where
  "startswith s [] = True"
| "startswith [] (p # ps) = False"
| "startswith (c # cs) (p # ps) = (c = p \<and> startswith cs ps)"

fun contains :: "pystr \<Rightarrow> pystr \<Rightarrow> bool" where
  "contains [] p = (p = [])"
| "contains (c # cs) p = (startswith (c # cs) p \<or> contains cs p)"

text \<open>
  \<open>s.replace(old, new)\<close> for a non-empty \<open>old\<close>: the occurrences are replaced from
  left to right, without overlap.  Every call in the program has a non-empty literal
  \<open>old\<close>; for an empty one the model returns \<open>s\<close>.
\<close>

fun replace_from :: "pystr \<Rightarrow> nat \<Rightarrow> pystr \<Rightarrow> pystr \<Rightarrow> pystr" where
  "replace_from old skip new [] = []"
| "replace_from old skip new (c # cs) =
     (if 0 < skip then replace_from old (skip - 1) new cs
      else if startswith (c # cs) old then new @ replace_from old (length old - 1) new cs
      else c # replace_from old 0 new cs)"

definition replace :: "pystr \<Rightarrow> pystr \<Rightarrow> pystr \<Rightarrow> pystr" where
  "replace s old new = (if old = [] then s else replace_from old 0 new s)"

text \<open>\<open>s.split(sep)[0]\<close> for a separator of one character.\<close>

definition split_first :: "pystr \<Rightarrow> nat \<Rightarrow> pystr" where
  "split_first s sep = takeWhile (\<lambda>c. c \<noteq> sep) s"

text \<open>\<open>sep.join(xs)\<close>.\<close>

fun join :: "pystr \<Rightarrow> pystr list \<Rightarrow> pystr" where
  "join sep [] = []"
| "join sep [x] = x"
| "join sep (x # y # ys) = x @ sep @ join sep (y # ys)"

text \<open>\<open>list(dict.fromkeys(xs))\<close>: the first occurrence of every element, in order.\<close>

fun fromkeys :: "'a list \<Rightarrow> 'a list \<Rightarrow> 'a list" where
  "fromkeys seen [] = []"
| "fromkeys seen (x # xs) =
     (if x \<in> set seen then fromkeys seen xs else x # fromkeys (x # seen) xs)"

text \<open>\<open>str(n)\<close> for an integer.\<close>

fun digits :: "nat \<Rightarrow> pystr" where
  "digits n = (if n < 10 then [48 + n] else digits (n div 10) @ [48 + n mod 10])"

definition str_of_int :: "int \<Rightarrow> pystr" where
  "str_of_int i = (if i < 0 then 45 # digits (nat (- i)) else digits (nat i))"

text \<open>\<open>min(xs)\<close> and \<open>max(xs)\<close> of a non-empty list; the program guards the empty one.\<close>

definition py_min :: "pystr list \<Rightarrow> pystr" where
  "py_min xs = (case xs of [] \<Rightarrow> [] | x # r \<Rightarrow> foldl min x r)"

definition py_max :: "pystr list \<Rightarrow> pystr" where
  "py_max xs = (case xs of [] \<Rightarrow> [] | x # r \<Rightarrow> foldl max x r)"

section \<open>Regular expressions\<close>

text \<open>
  The patterns of the program are sequences of single-character classes, each taken once
  or under a greedy \<open>+\<close> or \<open>*\<close>, of the assertion \<open>\b\<close>, and of at most one
  capturing group.  \<open>rmatch\<close> is the backtracking matcher of \<open>re\<close> on such
  sequences: a greedy quantifier first takes the longest run and gives characters back
  one at a time.  The flag is \<open>re.IGNORECASE\<close>.
\<close>

datatype cls =
  Lit nat
  | Space
  | Word
  | Range nat nat
  | AnyOf "nat list"
  | NoneOf "nat list"

datatype item = One cls | Plus cls | Star cls | Bnd | GOpen | GClose

type_synonym regex = "item list"

definition lits :: "string \<Rightarrow> regex" where
  "lits s = map (\<lambda>c. One (Lit (of_char c))) s"

fun cls_ok :: "bool \<Rightarrow> cls \<Rightarrow> nat \<Rightarrow> bool" where
  "cls_ok ic (Lit p) x = (if ic then lower x = lower p else x = p)"
| "cls_ok ic Space x = is_space x"
| "cls_ok ic Word x = is_word x"
| "cls_ok ic (Range lo hi) x =
     (if ic then list_ex (\<lambda>i. lower i = lower x) [lo..<Suc hi] else lo \<le> x \<and> x \<le> hi)"
| "cls_ok ic (AnyOf cs) x = (if ic then lower x \<in> set (map lower cs) else x \<in> set cs)"
| "cls_ok ic (NoneOf cs) x = (if ic then lower x \<notin> set (map lower cs) else x \<notin> set cs)"

text \<open>\<open>\b\<close>: exactly one of the characters before and after the position is a word character.\<close>

definition at_boundary :: "nat option \<Rightarrow> pystr \<Rightarrow> bool" where
  "at_boundary prev s =
     ((case prev of None \<Rightarrow> False | Some p \<Rightarrow> is_word p) \<noteq>
      (case s of [] \<Rightarrow> False | x # _ \<Rightarrow> is_word x))"

fun first_some :: "('a \<Rightarrow> 'b option) \<Rightarrow> 'a list \<Rightarrow> 'b option" where
  "first_some f [] = None"
| "first_some f (x # xs) = (case f x of Some y \<Rightarrow> Some y | None \<Rightarrow> first_some f xs)"

text \<open>The character before the position reached after \<open>j\<close> more characters of \<open>s\<close>.\<close>

definition prev_after :: "nat option \<Rightarrow> pystr \<Rightarrow> nat \<Rightarrow> nat option" where
  "prev_after prev s j = (if j = 0 then prev else Some (s ! (j - 1)))"

text \<open>
  \<open>rmatch ic re prev s n g\<close> matches \<open>re\<close> at the start of \<open>s\<close>, where \<open>prev\<close> is the
  character before it, \<open>n\<close> characters of the match are already consumed and \<open>g\<close> are
  the bounds of group 1 so far; the result is the length of the match and the bounds of
  group 1 (offsets from the start of the match).
\<close>

fun rmatch :: "bool \<Rightarrow> regex \<Rightarrow> nat option \<Rightarrow> pystr \<Rightarrow> nat \<Rightarrow> (nat \<times> nat) option
    \<Rightarrow> (nat \<times> (nat \<times> nat) option) option" where
  "rmatch ic [] prev s n g = Some (n, g)"
| "rmatch ic (One c # r) prev s n g =
     (case s of [] \<Rightarrow> None
      | x # xs \<Rightarrow> if cls_ok ic c x then rmatch ic r (Some x) xs (n + 1) g else None)"
| "rmatch ic (Plus c # r) prev s n g =
     first_some (\<lambda>j. rmatch ic r (prev_after prev s j) (drop j s) (n + j) g)
       (rev [1..<Suc (length (takeWhile (cls_ok ic c) s))])"
| "rmatch ic (Star c # r) prev s n g =
     first_some (\<lambda>j. rmatch ic r (prev_after prev s j) (drop j s) (n + j) g)
       (rev [0..<Suc (length (takeWhile (cls_ok ic c) s))])"
| "rmatch ic (Bnd # r) prev s n g = (if at_boundary prev s then rmatch ic r prev s n g else None)"
| "rmatch ic (GOpen # r) prev s n g = rmatch ic r prev s n (Some (n, n))"
| "rmatch ic (GClose # r) prev s n g =
     rmatch ic r prev s n (case g of None \<Rightarrow> None | Some (a, b) \<Rightarrow> Some (a, n))"

definition group1 :: "pystr \<Rightarrow> (nat \<times> nat) option \<Rightarrow> pystr" where
  "group1 s g = (case g of None \<Rightarrow> [] | Some (a, b) \<Rightarrow> take (b - a) (drop a s))"

text \<open>A replacement template: literal text and the reference \<open>\1\<close>.\<close>

datatype rpiece = RLit pystr | RGroup1

fun expand :: "rpiece list \<Rightarrow> pystr \<Rightarrow> pystr" where
  "expand [] grp = []"
| "expand (RLit t # ps) grp = t @ expand ps grp"
| "expand (RGroup1 # ps) grp = grp @ expand ps grp"

text \<open>
  \<open>re.sub(pattern, repl, s)\<close>: the leftmost match at or after each position is replaced
  and the scan goes on behind it; after an empty match one character is copied.
\<close>

fun sub_scan :: "bool \<Rightarrow> regex \<Rightarrow> rpiece list \<Rightarrow> nat option \<Rightarrow> pystr \<Rightarrow> pystr" where
  "sub_scan ic re repl prev [] =
     (case rmatch ic re prev [] 0 None of
        None \<Rightarrow> []
      | Some (n, g) \<Rightarrow> expand repl (group1 [] g))"
| "sub_scan ic re repl prev (x # xs) =
     (case rmatch ic re prev (x # xs) 0 None of
        None \<Rightarrow> x # sub_scan ic re repl (Some x) xs
      | Some (n, g) \<Rightarrow>
          if n = 0 then expand repl (group1 (x # xs) g) @ x # sub_scan ic re repl (Some x) xs
          else expand repl (group1 (x # xs) g) @
               sub_scan ic re repl (Some ((x # xs) ! (n - 1))) (drop (n - 1) xs))"

definition re_sub :: "bool \<Rightarrow> regex \<Rightarrow> rpiece list \<Rightarrow> pystr \<Rightarrow> pystr" where
  "re_sub ic re repl s = sub_scan ic re repl None s"

text \<open>\<open>re.search(pattern, s)\<close>, reduced to the text of group 1 of the leftmost match.\<close>

fun search_scan :: "bool \<Rightarrow> regex \<Rightarrow> nat option \<Rightarrow> pystr \<Rightarrow> pystr option" where
  "search_scan ic re prev [] =
     (case rmatch ic re prev [] 0 None of None \<Rightarrow> None | Some (n, g) \<Rightarrow> Some (group1 [] g))"
| "search_scan ic re prev (x # xs) =
     (case rmatch ic re prev (x # xs) 0 None of
        None \<Rightarrow> search_scan ic re (Some x) xs
      | Some (n, g) \<Rightarrow> Some (group1 (x # xs) g))"

definition re_search_group1 :: "bool \<Rightarrow> regex \<Rightarrow> pystr \<Rightarrow> pystr option" where
  "re_search_group1 ic re s = search_scan ic re None s"

section \<open>Anonymizer\<close>

text \<open>The table \<open>ANONYMIZATION_RULES\<close>: pattern, replacement, description.\<close>

definition ANONYMIZATION_RULES :: "(regex \<times> rpiece list \<times> pystr) list" where
  "ANONYMIZATION_RULES =
   [(Bnd # lits ''Voyages-SNCF.com'' @ [Bnd],
       [RLit (str ''Client Transports'')], str ''Voyages-SNCF.com''),
    (Bnd # lits ''ButConforama'' @ [Bnd],
       [RLit (str ''Client Distribution'')], str ''ButConforama''),
    (Bnd # lits ''LVMH'' @ [Plus Space] @ lits ''Beauty'' @ [Plus Space] @ lits ''Tech'' @ [Bnd],
       [RLit (str ''Client Luxe'')], str ''LVMH Beauty Tech''),
    (Bnd # lits ''LVMH'' @ [Bnd],
       [RLit (str ''Client Luxe'')], str ''LVMH''),
    (Bnd # lits ''Groupe'' @ [Plus Space] @ lits ''Caisse'' @ [Plus Space] @ lits ''d'' @
       [One (AnyOf [39, 39])] @ lits ''Epargne'' @ [Bnd],
       [RLit (str ''Client Banque'')], str ''Groupe Caisse d'' @ [39] @ str ''Epargne''),
    (Bnd # lits ''Groupe'' @ [Plus Space, GOpen, Plus Word, GClose, Bnd],
       [RLit (str ''Client ''), RGroup1], str ''Groupe XXX''),
    (Bnd # lits ''Groupama'' @ [Bnd],
       [RLit (str ''Client Assurances'')], str ''Groupama''),
    (Bnd # lits ''Natixis'' @ [Bnd],
       [RLit (str ''Client Banque'')], str ''Natixis''),
    (Bnd # lits ''Generali'' @ [Bnd],
       [RLit (str ''Client Assurances'')], str ''Generali''),
    (Bnd # lits ''Soci'' @ [One (Lit 233)] @ lits ''t'' @ [One (Lit 233), Plus Space] @
       lits ''G'' @ [One (Lit 233)] @ lits ''n'' @ [One (Lit 233)] @ lits ''rale'' @ [Bnd],
       [RLit (str ''Client Banque'')],
       str ''Soci'' @ [233] @ str ''t'' @ [233] @ str '' G'' @ [233] @ str ''n'' @ [233] @ str ''rale''),
    (Bnd # lits ''GE'' @ [Plus Space] @ lits ''Money'' @ [Plus Space] @ lits ''Bank'' @ [Bnd],
       [RLit (str ''Client Banque'')], str ''GE Money Bank''),
    (Bnd # lits ''Caisse'' @ [Plus Space] @ lits ''d'' @ [One (AnyOf [39, 39])] @
       lits ''Epargne'' @ [Plus Space] @ lits ''Financement'' @ [Bnd],
       [RLit (str ''Client Banque'')], str ''Caisse d'' @ [39] @ str ''Epargne Financement''),
    (Bnd # lits ''Caisse'' @ [Plus Space] @ lits ''d'' @ [One (AnyOf [39, 39])] @
       lits ''Epargne'' @ [Bnd],
       [RLit (str ''Client Banque'')], str ''Caisse d'' @ [39] @ str ''Epargne''),
    (Bnd # lits ''Mission'' @ [Plus Space, GOpen, One (Range 65 90), Plus (NoneOf [41]), GClose, Bnd],
       [RLit (str ''Mission ''), RGroup1], str ''Keep Mission prefix'')]"

text \<open>\<open>anonymize_text\<close>: every rule in order, each on the result of the one before.\<close>

definition anonymize_text :: "pystr \<Rightarrow> pystr" where
  "anonymize_text text =
     foldl (\<lambda>result (pattern, replacement, desc). re_sub True pattern replacement result)
       text ANONYMIZATION_RULES"

section \<open>Labels\<close>

text \<open>
  The table \<open>LABELS\<close>.  The program runs with \<open>lang\<close> one of its two keys, \<open>"fr"\<close>
  and \<open>"en"\<close>.
\<close>

datatype lang = Fr | En

definition lang_code :: "lang \<Rightarrow> pystr" where
  "lang_code lang = (case lang of Fr \<Rightarrow> str ''fr'' | En \<Rightarrow> str ''en'')"

record labels =
  lbl_summary :: pystr
  lbl_detail :: pystr
  lbl_tldr :: pystr
  lbl_contact :: pystr
  lbl_education :: pystr
  lbl_certificates :: pystr
  lbl_languages :: pystr
  lbl_skills :: pystr
  lbl_interests :: pystr
  lbl_present :: pystr
  lbl_months :: pystr
  lbl_year :: pystr
  lbl_years :: pystr
  lbl_page :: pystr
  lbl_suite :: pystr
  lbl_months_list :: "pystr list"

definition LABELS :: "lang \<Rightarrow> labels" where
  "LABELS lang =
     (case lang of
        Fr \<Rightarrow>
       \<lparr>lbl_summary = str ''Parcours professionnel '' @ [8212] @ str '' Synth'' @ [232] @ str ''se'',
        lbl_detail = str ''Parcours professionnel '' @ [8212] @ str '' D'' @ [233] @ str ''tail'',
        lbl_tldr = str ''TL;DR'',
        lbl_contact = str ''Contact'',
        lbl_education = str ''Formation'',
        lbl_certificates = str ''Certifications'',
        lbl_languages = str ''Langues'',
        lbl_skills = str ''Comp'' @ [233] @ str ''tences'',
        lbl_interests = str ''Loisirs & Int'' @ [233] @ str ''r'' @ [234] @ str ''ts'',
        lbl_present = str ''Pr'' @ [233] @ str ''sent'',
        lbl_months = str ''mois'',
        lbl_year = str ''an'',
        lbl_years = str ''ans'',
        lbl_page = str ''Page'',
        lbl_suite = str '' (suite)'',
        lbl_months_list =
          [str ''Jan'', str ''F'' @ [233] @ str ''v'', str ''Mar'', str ''Avr'', str ''Mai'', str ''Jun'', str ''Jul'', str ''Ao'' @ [251] @ str ''t'', str ''Sep'', str ''Oct'', str ''Nov'', str ''D'' @ [233] @ str ''c'']\<rparr>
      | En \<Rightarrow>
       \<lparr>lbl_summary = str ''Professional Experience '' @ [8212] @ str '' Summary'',
        lbl_detail = str ''Professional Experience '' @ [8212] @ str '' Detail'',
        lbl_tldr = str ''TL;DR'',
        lbl_contact = str ''Contact'',
        lbl_education = str ''Education'',
        lbl_certificates = str ''Certifications'',
        lbl_languages = str ''Languages'',
        lbl_skills = str ''Skills'',
        lbl_interests = str ''Interests'',
        lbl_present = str ''Present'',
        lbl_months = str ''months'',
        lbl_year = str ''year'',
        lbl_years = str ''years'',
        lbl_page = str ''Page'',
        lbl_suite = str '' (continued)'',
        lbl_months_list =
          [str ''Jan'', str ''Feb'', str ''Mar'', str ''Apr'', str ''May'', str ''Jun'', str ''Jul'', str ''Aug'', str ''Sep'', str ''Oct'', str ''Nov'', str ''Dec'']\<rparr>)"

section \<open>Date and duration formatter\<close>

text \<open>
  \<open>datetime.strptime(date_str, "%Y-%m")\<close>: four digits, a hyphen and a month written
  \<open>1[0-2]\<close>, \<open>0[1-9]\<close> or \<open>[1-9]\<close> (the alternatives in this order), with nothing
  left over, and a year of at least 1.  The result is the pair (year, month); \<open>None\<close>
  stands for the \<open>ValueError\<close> that \<open>parse_date\<close> catches.
\<close>

definition digit_val :: "nat \<Rightarrow> int" where
  "digit_val c = int c - 48"

definition month_directive :: "pystr \<Rightarrow> (int \<times> pystr) option" where
  "month_directive s =
     (case s of
        [] \<Rightarrow> None
      | c1 # r1 \<Rightarrow>
          (case r1 of
             [] \<Rightarrow> if 49 \<le> c1 \<and> c1 \<le> 57 then Some (digit_val c1, []) else None
           | c2 # r2 \<Rightarrow>
               if c1 = 49 \<and> 48 \<le> c2 \<and> c2 \<le> 50 then Some (10 + digit_val c2, r2)
               else if c1 = 48 \<and> 49 \<le> c2 \<and> c2 \<le> 57 then Some (digit_val c2, r2)
               else if 49 \<le> c1 \<and> c1 \<le> 57 then Some (digit_val c1, c2 # r2)
               else None))"

definition strptime_Y_m :: "pystr \<Rightarrow> (int \<times> int) option" where
  "strptime_Y_m s =
     (case s of
        y1 # y2 # y3 # y4 # h # r \<Rightarrow>
          if is_digit y1 \<and> is_digit y2 \<and> is_digit y3 \<and> is_digit y4 \<and> h = 45 then
            (case month_directive r of
               None \<Rightarrow> None
             | Some (m, rest) \<Rightarrow>
                 let y = 1000 * digit_val y1 + 100 * digit_val y2 + 10 * digit_val y3 + digit_val y4
                 in if rest = [] \<and> 1 \<le> y then Some (y, m) else None)
          else None
      | _ \<Rightarrow> None)"

text \<open>
  A date argument is a Python string or \<open>None\<close> (a JSON null).  \<open>falsy\<close> is the test
  \<open>not date_str\<close>.
\<close>

definition falsy :: "pystr option \<Rightarrow> bool" where
  "falsy v = (v = None \<or> v = Some [])"

definition parse_date :: "pystr option \<Rightarrow> (int \<times> int) option" where
  "parse_date date_str =
     (if falsy date_str then None
      else case date_str of None \<Rightarrow> None | Some s \<Rightarrow> strptime_Y_m s)"

definition format_date :: "pystr option \<Rightarrow> lang \<Rightarrow> pystr" where
  "format_date date_str lang =
     (if falsy date_str then lbl_present (LABELS lang)
      else case parse_date date_str of
             None \<Rightarrow> (case date_str of None \<Rightarrow> [] | Some s \<Rightarrow> s)
           | Some (year, month) \<Rightarrow>
               lbl_months_list (LABELS lang) ! nat (month - 1) @ str '' '' @ str_of_int year)"

text \<open>
  The exceptions the program can raise on a well-typed r\'esum\'e record: \<open>KeyError\<close> from
  \<open>d[key]\<close> on an absent key, and \<open>AttributeError\<close> from \<open>end_dt.year\<close> when
  \<open>end_dt\<close> is \<open>None\<close>.
\<close>

datatype error = KeyError | AttributeError

text \<open>
  \<open>calculate_duration\<close>; \<open>now\<close> is the (year, month) of \<open>datetime.now()\<close>.  Python's
  \<open>//\<close> and \<open>%\<close> round towards minus infinity, as \<open>div\<close> and \<open>mod\<close> on \<open>int\<close> do.
\<close>

definition calculate_duration ::
    "int \<times> int \<Rightarrow> pystr option \<Rightarrow> pystr option \<Rightarrow> lang \<Rightarrow> error + pystr" where
  "calculate_duration now start end lang =
     (let start_dt = parse_date start;
          end_dt = (if \<not> falsy end then parse_date end else Some now)
      in case start_dt of
           None \<Rightarrow> Inr []
         | Some (start_year, start_month) \<Rightarrow>
             (case end_dt of
                None \<Rightarrow> Inl AttributeError
              | Some (end_year, end_month) \<Rightarrow>
                  let months = (end_year - start_year) * 12 + (end_month - start_month);
                      years = months div 12;
                      remaining_months = months mod 12;
                      lbl = LABELS lang
                  in Inr
                    (if years = 0 then str_of_int remaining_months @ str '' '' @ lbl_months lbl
                     else if remaining_months = 0 then
                       str_of_int years @ str '' '' @
                       (if years = 1 then lbl_year lbl else lbl_years lbl)
                     else
                       str_of_int years @ str '' '' @
                       (if years = 1 then lbl_year lbl else lbl_years lbl) @ str '' '' @
                       str_of_int remaining_months @ str '' '' @ lbl_months lbl)))"

section \<open>The r\'esum\'e record\<close>

text \<open>
  The input is a JSON document of the JSON Resume schema, read into Python dictionaries.
  Each dictionary is a record whose fields are the keys the program reads; a field is
  \<open>None\<close> when the key is absent, and holds a value of the schema's type otherwise
  (a string, a list of strings, a list of dictionaries).  The two dates of a work entry
  may also be JSON null: their fields are \<open>None\<close> for an absent key, \<open>Some None\<close>
  for null and \<open>Some (Some s)\<close> for a string.
\<close>

record work_entry =
  w_name :: "pystr option"
  w_position :: "pystr option"
  w_startDate :: "pystr option option"
  w_endDate :: "pystr option option"
  w_summary :: "pystr option"
  w_highlights :: "pystr list option"

record profile =
  p_network :: "pystr option"
  p_username :: "pystr option"

record location =
  l_city :: "pystr option"

record basics =
  b_name :: "pystr option"
  b_label :: "pystr option"
  b_summary :: "pystr option"
  b_image :: "pystr option"
  b_phone :: "pystr option"
  b_email :: "pystr option"
  b_url :: "pystr option"
  b_profiles :: "profile list option"
  b_location :: "location option"

record skill =
  s_name :: "pystr option"
  s_keywords :: "pystr list option"

record education =
  e_studyType :: "pystr option"
  e_area :: "pystr option"
  e_institution :: "pystr option"
  e_startDate :: "pystr option"
  e_endDate :: "pystr option"

record certificate =
  c_name :: "pystr option"
  c_date :: "pystr option"

record language =
  g_language :: "pystr option"
  g_fluency :: "pystr option"

record interest =
  i_name :: "pystr option"
  i_keywords :: "pystr list option"

record resume =
  r_basics :: "basics option"
  r_work :: "work_entry list option"
  r_skills :: "skill list option"
  r_education :: "education list option"
  r_certificates :: "certificate list option"
  r_languages :: "language list option"
  r_interests :: "interest list option"

text \<open>\<open>d.get(key, default)\<close> and \<open>d[key]\<close> on a field.\<close>

definition get_or :: "'a option \<Rightarrow> 'a \<Rightarrow> 'a" where
  "get_or field dflt = (case field of None \<Rightarrow> dflt | Some v \<Rightarrow> v)"

definition getitem :: "'a option \<Rightarrow> error + 'a" where
  "getitem field = (case field of None \<Rightarrow> Inl KeyError | Some v \<Rightarrow> Inr v)"

text \<open>\<open>d.get(key)\<close> on a nullable field: absent and null both give \<open>None\<close>.\<close>

definition get_nullable :: "'a option option \<Rightarrow> 'a option" where
  "get_nullable field = (case field of None \<Rightarrow> None | Some v \<Rightarrow> v)"

text \<open>Truth of a string-valued \<open>d.get(key)\<close> in a condition.\<close>

definition truthy :: "pystr option \<Rightarrow> bool" where
  "truthy v = (\<not> falsy v)"

text \<open>Sequencing of computations that may raise: the first exception ends the run.\<close>

definition bind :: "error + 'a \<Rightarrow> ('a \<Rightarrow> error + 'b) \<Rightarrow> error + 'b" where
  "bind m f = (case m of Inl e \<Rightarrow> Inl e | Inr v \<Rightarrow> f v)"

fun map_raise :: "('a \<Rightarrow> error + 'b) \<Rightarrow> 'a list \<Rightarrow> error + 'b list" where
  "map_raise f [] = Inr []"
| "map_raise f (x # xs) = bind (f x) (\<lambda>y. bind (map_raise f xs) (\<lambda>ys. Inr (y # ys)))"

section \<open>Company tables and grouping engine\<close>

definition COMPANY_LOGOS :: "(pystr \<times> pystr) list" where
  "COMPANY_LOGOS =
     [(str ''SFEIR'', str ''assets/logos/sfeir.png''),
      (str ''Mixdata'', str ''assets/logos/mixdata.jpg''),
      (str ''Canal+'', str ''assets/logos/canal.svg''),
      (str ''Viseo Technologies'', str ''assets/logos/viseo.jpg''),
      (str ''Capgemini'', str ''assets/logos/capgemini.svg''),
      (str ''Maison du Temps et de la Mobilit'' @ [233], str ''assets/logos/belfort.jpg'')]"

definition COMPANY_COLORS :: "(pystr \<times> pystr) list" where
  "COMPANY_COLORS =
     [(str ''SFEIR'', str ''c-sf''),
      (str ''Mixdata'', str ''c-mx''),
      (str ''Canal+'', str ''c-ca''),
      (str ''Viseo Technologies'', str ''c-vi''),
      (str ''Capgemini'', str ''c-cg''),
      (str ''Maison du Temps et de la Mobilit'' @ [233], str ''c-ot'')]"

text \<open>The pattern \<open>\s*\([^)]*\)\<close> of \<open>get_company_name\<close>.\<close>

definition parenthetical :: regex where
  "parenthetical = [Star Space, One (Lit 40), Star (NoneOf [41]), One (Lit 41)]"

definition get_company_name :: "work_entry \<Rightarrow> pystr" where
  "get_company_name work_entry =
     (let name = get_or (w_name work_entry) []
      in strip (re_sub False parenthetical [] name))"

definition get_company_logo :: "pystr \<Rightarrow> pystr" where
  "get_company_logo company_name =
     (let logo_path = get_or (map_of COMPANY_LOGOS company_name) []
      in if logo_path \<noteq> [] then str ''../'' @ logo_path else [])"

definition get_company_color :: "pystr \<Rightarrow> pystr" where
  "get_company_color company_name = get_or (map_of COMPANY_COLORS company_name) (str ''c-sf'')"

text \<open>
  A Python dictionary keeps its keys in insertion order; \<open>grouped\<close> is the list of its
  items.  \<open>group_add\<close> is the body of the loop of \<open>group_experiences_by_company\<close>: a new
  key goes to the end with a one-element list, a known key has the entry appended.
\<close>

fun group_add :: "('k \<times> 'a list) list \<Rightarrow> 'k \<Rightarrow> 'a \<Rightarrow> ('k \<times> 'a list) list" where
  "group_add [] company work = [(company, [work])]"
| "group_add ((k, ws) # grouped) company work =
     (if k = company then (k, ws @ [work]) # grouped
      else (k, ws) # group_add grouped company work)"

definition group_experiences_by_company :: "work_entry list \<Rightarrow> (pystr \<times> work_entry list) list" where
  "group_experiences_by_company work_list =
     foldl (\<lambda>grouped work. group_add grouped (get_company_name work) work) [] work_list"

section \<open>Section renderers\<close>

subsection \<open>Sidebar\<close>

text \<open>
  \<open>render_sidebar\<close> builds its sections one after the other; the definitions below are
  these blocks, in the order of the source.  A block that reads \<open>d["name"]\<close> raises
  \<open>KeyError\<close> when the key is absent.
\<close>

definition skill_html :: "skill \<Rightarrow> error + pystr" where
  "skill_html skill =
     (let keywords = join (str '', '') (get_or (s_keywords skill) [])
      in bind (getitem (s_name skill)) (\<lambda>name. Inr
       (str ''    <div class=\"sg\">\<newline>      <div class=\"sg-n\">'' @ name @
        str ''</div>\<newline>      <div class=\"sg-k\">'' @ keywords @
        str ''</div>\<newline>    </div>\<newline>'')))"

definition skills_section :: "labels \<Rightarrow> skill list \<Rightarrow> error + pystr" where
  "skills_section lbl skills =
     (if skills \<noteq> [] then
        bind (map_raise skill_html skills) (\<lambda>hs. let skills_html = concat hs in Inr
         (str ''  <hr>\<newline>  <div>\<newline>    <div class=\"st\">'' @ lbl_skills lbl @
          str ''</div>\<newline>'' @ skills_html @ str ''  </div>''))
      else Inr [])"

definition cert_html :: "certificate \<Rightarrow> error + pystr" where
  "cert_html cert =
     (let date = get_or (c_date cert) [];
          year = (if date \<noteq> [] then split_first date 45 else [])
      in bind (getitem (c_name cert)) (\<lambda>name. Inr
       (str ''    <div class=\"it\">'' @ name @ str '' <span class=\"it-s\">'' @ year @
        str ''</span></div>\<newline>'')))"

definition certs_section :: "labels \<Rightarrow> certificate list \<Rightarrow> error + pystr" where
  "certs_section lbl certificates =
     (if certificates \<noteq> [] then
        bind (map_raise cert_html certificates) (\<lambda>hs. let certs_html = concat hs in Inr
         (str ''  <hr>\<newline>  <div>\<newline>    <div class=\"st\">'' @ lbl_certificates lbl @
          str ''</div>\<newline>'' @ certs_html @ str ''  </div>''))
      else Inr [])"

definition lang_html :: "language \<Rightarrow> error + pystr" where
  "lang_html language =
     bind (getitem (g_language language)) (\<lambda>name.
     bind (getitem (g_fluency language)) (\<lambda>fluency. Inr
       (str ''    <div class=\"it\">'' @ name @ str '' '' @ [183] @ str '' '' @ fluency @
        str ''</div>\<newline>'')))"

definition langs_section :: "labels \<Rightarrow> language list \<Rightarrow> error + pystr" where
  "langs_section lbl languages =
     (if languages \<noteq> [] then
        bind (map_raise lang_html languages) (\<lambda>hs. let langs_html = concat hs in Inr
         (str ''  <hr>\<newline>  <div>\<newline>    <div class=\"st\">'' @ lbl_languages lbl @
          str ''</div>\<newline>'' @ langs_html @ str ''  </div>''))
      else Inr [])"

definition interest_html :: "interest \<Rightarrow> error + pystr" where
  "interest_html interest =
     (let keywords = join (str '', '') (get_or (i_keywords interest) [])
      in bind (getitem (i_name interest)) (\<lambda>name. Inr
       (str ''  <div>\<newline>    <div class=\"st\">'' @ name @
        str ''</div>\<newline>    <div class=\"it\">'' @ keywords @
        str ''</div>\<newline>  </div>\<newline>'')))"

definition interests_section :: "interest list \<Rightarrow> error + pystr" where
  "interests_section interests =
     (if interests \<noteq> [] then
        bind (map_raise interest_html interests) (\<lambda>hs. let interests_html = concat hs in Inr
         (str ''  <hr>\<newline>'' @ interests_html))
      else Inr [])"

definition edu_html :: "lang \<Rightarrow> education \<Rightarrow> pystr" where
  "edu_html lang edu =
     (let study_type = get_or (e_studyType edu) [];
          area = get_or (e_area edu) [];
          degree =
            (if study_type \<noteq> [] \<and> area \<noteq> [] then
               study_type @ (if lang = Fr then str '' en '' else str '' in '') @ area
             else if study_type \<noteq> [] then study_type else area)
      in str ''    <div class=\"it\"><b>'' @ degree @ str ''</b><br><span class=\"it-s\">'' @
         get_or (e_institution edu) [] @ str '' '' @ [183] @ str '' '' @ get_or (e_startDate edu) [] @
         [8211] @ get_or (e_endDate edu) [] @ str ''</span></div>\<newline>'')"

definition edu_section :: "labels \<Rightarrow> lang \<Rightarrow> education list \<Rightarrow> pystr" where
  "edu_section lbl lang education =
     (if education \<noteq> [] then
        (let edu_html = concat (map (edu_html lang) education)
         in str ''  <hr>\<newline>  <div>\<newline>    <div class=\"st\">'' @ lbl_education lbl @
            str ''</div>\<newline>'' @ edu_html @ str ''  </div>'')
      else [])"

definition contact_items :: "basics \<Rightarrow> bool \<Rightarrow> pystr list" where
  "contact_items basics anonymize =
     (if \<not> anonymize \<and> truthy (b_phone basics)
      then [str ''      <span>'' @ get_or (b_phone basics) [] @ str ''</span>'']
      else []) @
     (if \<not> anonymize \<and> truthy (b_email basics)
      then [str ''      <span>'' @ get_or (b_email basics) [] @ str ''</span>'']
      else []) @
     (if truthy (b_url basics)
      then [str ''      <a>'' @
            replace (replace (get_or (b_url basics) []) (str ''https://'') [])
              (str ''http://'') [] @ str ''</a>'']
      else []) @
     (case b_profiles basics of
        None \<Rightarrow> []
      | Some profiles \<Rightarrow>
          concat (map (\<lambda>profile.
            if p_network profile = Some (str ''LinkedIn'')
            then [str ''      <a>linkedin.com/in/'' @ get_or (p_username profile) [] @
                  str ''</a>'']
            else []) profiles)) @
     (case b_location basics of
        None \<Rightarrow> []
      | Some loc \<Rightarrow>
          if truthy (l_city loc)
          then [str ''      <span>'' @ get_or (l_city loc) [] @ str '', France</span>'']
          else [])"

definition render_sidebar ::
    "basics \<Rightarrow> skill list \<Rightarrow> education list \<Rightarrow> certificate list \<Rightarrow> language list \<Rightarrow>
     interest list \<Rightarrow> bool \<Rightarrow> lang \<Rightarrow> error + pystr" where
  "render_sidebar basics skills education certificates languages interests anonymize lang =
     (let lbl = LABELS lang in
      bind (skills_section lbl skills) (\<lambda>skills_section.
      bind (certs_section lbl certificates) (\<lambda>certs_section.
      bind (langs_section lbl languages) (\<lambda>langs_section.
      bind (interests_section interests) (\<lambda>interests_section.
      let edu_section = edu_section lbl lang education;
          contact_html = join [10] (contact_items basics anonymize)
      in Inr
       (str ''<aside class=\"sb\">\<newline>  <img src=\"'' @ get_or (b_image basics) [] @
        str ''\" alt=\"'' @ get_or (b_name basics) [] @
        str ''\" class=\"photo\">\<newline>  <div>\<newline>'' @ str ''    <h1>'' @
        replace (get_or (b_name basics) []) (str '' '') (str ''<br>'') @
        str ''</h1>\<newline>    <div class=\"sub\">'' @
        replace (get_or (b_label basics) []) (str '' / '') (str ''<br>'') @
        str ''</div>\<newline>  </div>\<newline>  <hr>\<newline>  <div>\<newline>'' @
        str ''    <div class=\"st\">'' @ lbl_contact lbl @
        str ''</div>\<newline>    <div class=\"ct\">\<newline>'' @ contact_html @
        str ''\<newline>    </div>\<newline>  </div>\<newline>'' @ skills_section @
        str ''\<newline>'' @ edu_section @ str ''\<newline>'' @ certs_section @ str ''\<newline>'' @
        langs_section @ str ''\<newline>'' @ interests_section @ str ''</aside>''))))))"

text \<open>
  The seven \<open>resume_data.get(...)\<close> at the head of \<open>render_page_1\<close> and of
  \<open>render_detail_pages\<close>, followed by the call of \<open>render_sidebar\<close>.
\<close>

definition no_basics :: basics where
  "no_basics =
     \<lparr>b_name = None, b_label = None, b_summary = None, b_image = None, b_phone = None,
      b_email = None, b_url = None, b_profiles = None, b_location = None\<rparr>"

definition sidebar_of :: "resume \<Rightarrow> bool \<Rightarrow> lang \<Rightarrow> error + pystr" where
  "sidebar_of resume_data anonymize lang =
     render_sidebar (get_or (r_basics resume_data) no_basics) (get_or (r_skills resume_data) [])
       (get_or (r_education resume_data) []) (get_or (r_certificates resume_data) [])
       (get_or (r_languages resume_data) []) (get_or (r_interests resume_data) []) anonymize lang"

subsection \<open>Summary cards (page 1)\<close>

text \<open>
  \<open>all_starts\<close> and \<open>all_ends\<close>: the values of the date key over the entries for which
  \<open>exp.get(key)\<close> is true, that is present, not null and not empty.
\<close>

definition dates_of :: "(work_entry \<Rightarrow> pystr option option) \<Rightarrow> work_entry list \<Rightarrow> pystr list" where
  "dates_of key experiences =
     concat (map (\<lambda>exp. case get_nullable (key exp) of
                           None \<Rightarrow> []
                         | Some d \<Rightarrow> if d \<noteq> [] then [d] else []) experiences)"

definition earliest_start :: "work_entry list \<Rightarrow> pystr" where
  "earliest_start experiences =
     (let all_starts = dates_of w_startDate experiences
      in if all_starts \<noteq> [] then py_min all_starts else [])"

definition latest_end :: "work_entry list \<Rightarrow> pystr" where
  "latest_end experiences =
     (let all_ends = dates_of w_endDate experiences
      in if all_ends \<noteq> [] then py_max all_ends else [])"

text \<open>The text of the element \<open>company-sum-period\<close>.\<close>

definition company_sum_period :: "work_entry list \<Rightarrow> lang \<Rightarrow> pystr" where
  "company_sum_period experiences lang =
     format_date (Some (earliest_start experiences)) lang @ str '' '' @ [8211] @ str '' '' @
     format_date (Some (latest_end experiences)) lang"

definition roles_of :: "work_entry list \<Rightarrow> error + pystr list" where
  "roles_of experiences =
     map_raise (\<lambda>exp. bind (getitem (w_position exp)) (\<lambda>position.
       Inr (strip (split_first position 40)))) experiences"

definition descriptions_of :: "work_entry list \<Rightarrow> pystr list" where
  "descriptions_of experiences =
     concat (map (\<lambda>exp.
       (if truthy (w_summary exp) then [get_or (w_summary exp) []] else []) @
       take 2 (filter (\<lambda>h. \<not> startswith h (str ''Environnement:''))
                 (get_or (w_highlights exp) []))) experiences)"

definition company_summary ::
    "int \<times> int \<Rightarrow> bool \<Rightarrow> lang \<Rightarrow> pystr \<times> work_entry list \<Rightarrow> error + pystr" where
  "company_summary now anonymize lang grp =
     (case grp of (company, experiences) \<Rightarrow>
        bind (roles_of experiences) (\<lambda>roles.
        let roles_str0 = join (str '' '' @ [8226] @ str '' '') (fromkeys [] roles);
            description0 = join (str ''<br><br>'') (take 3 (descriptions_of experiences));
            roles_str = (if anonymize then anonymize_text roles_str0 else roles_str0);
            description = (if anonymize then anonymize_text description0 else description0);
            logo = get_company_logo company;
            color = get_company_color company
        in bind (calculate_duration now (Some (earliest_start experiences))
                   (Some (latest_end experiences)) lang) (\<lambda>duration. Inr
         (str ''  <!-- '' @ company @ str '' -->\<newline>  <div class=\"company-sum '' @ color @
          str ''\">\<newline>    <div class=\"company-sum-logo\">\<newline>'' @
          str ''      <img src=\"'' @ logo @ str ''\" alt=\"'' @ company @
          str ''\">\<newline>    </div>\<newline>    <div class=\"company-sum-left\">\<newline>'' @
          str ''      <div class=\"company-sum-name\">'' @ company @
          str ''</div>\<newline>      <div class=\"company-sum-period\">'' @ company_sum_period experiences lang @
          str ''</div>\<newline>      <div class=\"company-sum-dur\">'' @ duration @
          str ''</div>\<newline>    </div>\<newline>    <div class=\"company-sum-right\">\<newline>'' @
          str ''      <div class=\"company-sum-roles\">'' @ roles_str @
          str ''</div>\<newline>      <div class=\"company-sum-desc\">\<newline>'' @ str ''        '' @
          description @ str ''\<newline>      </div>\<newline>    </div>\<newline>'' @
          str ''  </div>\<newline>\<newline>''))))"

definition render_page_1 :: "int \<times> int \<Rightarrow> resume \<Rightarrow> bool \<Rightarrow> lang \<Rightarrow> error + pystr" where
  "render_page_1 now resume_data anonymize lang =
     (let basics = get_or (r_basics resume_data) no_basics;
          work = get_or (r_work resume_data) [];
          lbl = LABELS lang
      in bind (sidebar_of resume_data anonymize lang) (\<lambda>sidebar.
         let grouped_work = group_experiences_by_company work
         in bind (map_raise (company_summary now anonymize lang) grouped_work) (\<lambda>hs.
            let company_summaries_html = concat hs;
                summary = replace (get_or (b_summary basics) []) (str ''. '') (str ''.<br><br>'')
            in Inr
             (str ''<!-- ========== PAGE 1 ========== -->\<newline>'' @
              str ''<div class=\"page\">\<newline>\<newline>'' @ sidebar @
              str ''\<newline>\<newline><!-- MAIN PAGE 1 -->\<newline><main class=\"mn\">\<newline>'' @
              str ''\<newline>  <!-- TL;DR -->\<newline>  <div class=\"tldr\">\<newline>'' @
              str ''    <div class=\"tldr-title\">'' @ lbl_tldr lbl @
              str ''</div>\<newline>    <div class=\"tldr-text\">\<newline>'' @ str ''      '' @ summary @
              str ''\<newline>    </div>\<newline>  </div>\<newline>\<newline>  <div class=\"sec-title\">'' @
              lbl_summary lbl @ str ''</div>\<newline>\<newline>'' @ company_summaries_html @
              str ''\<newline></main>\<newline>\<newline><div class=\"page-num\">'' @ lbl_page lbl @
              str '' 1</div>\<newline>\<newline></div>\<newline>''))))"

subsection \<open>Detail groups\<close>

text \<open>The pattern \<open>\(([^)]+)\)\<close>.\<close>

definition mission_pattern :: regex where
  "mission_pattern = [One (Lit 40), GOpen, Plus (NoneOf [41]), GClose, One (Lit 41)]"

definition mission_of :: "pystr \<Rightarrow> pystr \<Rightarrow> pystr" where
  "mission_of name position =
     (if 40 \<in> set name then
        (case re_search_group1 False mission_pattern name of None \<Rightarrow> [] | Some m \<Rightarrow> m)
      else if contains position (str ''Mission'') then
        (case re_search_group1 False mission_pattern position of None \<Rightarrow> [] | Some m \<Rightarrow> m)
      else [])"

definition highlight_html :: "bool \<Rightarrow> pystr \<Rightarrow> pystr" where
  "highlight_html anonymize highlight0 =
     (let highlight = (if anonymize then anonymize_text highlight0 else highlight0)
      in if startswith highlight (str ''Environnement:'') then
           (let env_text = strip (replace highlight (str ''Environnement:'') [])
            in str ''            <li class=\"exp-env\">'' @ env_text @ str ''</li>\<newline>'')
         else str ''            <li>'' @ highlight @ str ''</li>\<newline>'')"

text \<open>
  One entry of a group.  The source also anonymizes the local \<open>summary\<close>, which the
  detail block never prints.
\<close>

definition render_experience ::
    "int \<times> int \<Rightarrow> pystr \<Rightarrow> pystr \<Rightarrow> bool \<Rightarrow> lang \<Rightarrow> work_entry \<Rightarrow> error + pystr" where
  "render_experience now company color anonymize lang exp =
     bind (getitem (w_name exp)) (\<lambda>name.
     bind (getitem (w_position exp)) (\<lambda>position0.
     let mission0 = mission_of name position0;
         position1 = strip (split_first position0 40);
         mission = (if anonymize then anonymize_text mission0 else mission0);
         position = (if anonymize then anonymize_text position1 else position1);
         highlights = get_or (w_highlights exp) [];
         highlights_html = concat (map (highlight_html anonymize) highlights)
     in bind (getitem (w_startDate exp)) (\<lambda>startDate.
        bind (getitem (w_endDate exp)) (\<lambda>endDate.
        bind (calculate_duration now startDate endDate lang) (\<lambda>duration.
        let mission_html =
              (if mission \<noteq> [] then str ''<div class=\"exp-mi\">'' @ mission @ str ''</div>''
               else [])
        in Inr
         (str ''        <div class=\"exp '' @ color @
          str ''\">\<newline>          <div class=\"exp-co\">'' @ company @
          str ''</div>\<newline>          '' @ mission_html @
          str ''\<newline>          <div class=\"exp-ro\">'' @ position @
          str ''</div>\<newline>          <div class=\"exp-dt\">'' @ format_date startDate lang @
          str '' '' @ [8211] @ str '' '' @ format_date endDate lang @
          str '' <span class=\"exp-dur\">'' @ duration @
          str ''</span></div>\<newline>          <ul class=\"exp-hl\">\<newline>'' @ highlights_html @
          str ''          </ul>\<newline>        </div>\<newline>'' @ str ''\<newline>''))))))"

definition render_experience_group ::
    "int \<times> int \<Rightarrow> pystr \<Rightarrow> work_entry list \<Rightarrow> pystr \<Rightarrow> bool \<Rightarrow> lang \<Rightarrow> error + pystr" where
  "render_experience_group now company experiences color anonymize lang =
     bind (map_raise (render_experience now company color anonymize lang) experiences) (\<lambda>hs. Inr
      (str ''      <!-- '' @ company @
       str '' -->\<newline>      <div class=\"exp-grp\">\<newline>'' @
       str ''        <div class=\"exp-grp-title\">'' @ company @ str ''</div>\<newline>\<newline>'' @
       concat hs @ str ''      </div>\<newline>\<newline>''))"

section \<open>Pagination engine\<close>

text \<open>
  The second loop of \<open>split_experiences_into_pages\<close> (generate.py, lines 512--558) walks
  over the list \<open>all_exp_groups\<close> of pairs (rendered fragment, estimated height) and
  mutates five local variables.  The variables are the fields of the record below; heights
  are Python integers.
\<close>

definition MAX_HEIGHT_PER_COL :: int where
  "MAX_HEIGHT_PER_COL = 255"

definition AVG_EXP_HEIGHT :: int where
  "AVG_EXP_HEIGHT = 35"

record 'a layout =
  pages :: "('a list \<times> 'a list) list"
  col1 :: "'a list"
  col2 :: "'a list"
  col1_height :: int
  col2_height :: int

definition layout_init :: "'a layout" where
  "layout_init = \<lparr>pages = [], col1 = [], col2 = [], col1_height = 0, col2_height = 0\<rparr>"

text \<open>One iteration of the loop \<open>for exp_html, height in all_exp_groups\<close>.\<close>

definition place_group :: "'a layout \<Rightarrow> 'a \<times> int \<Rightarrow> 'a layout" where
  "place_group s g =
     (case g of (exp_html, height) \<Rightarrow>
        if col1_height s \<le> col2_height s then
          if col1_height s + height \<le> MAX_HEIGHT_PER_COL then
            s\<lparr>col1 := col1 s @ [exp_html], col1_height := col1_height s + height\<rparr>
          else
            s\<lparr>pages := pages s @ [(col1 s, col2 s)], col1 := [exp_html], col2 := [],
              col1_height := height, col2_height := 0\<rparr>
        else
          if col2_height s + height \<le> MAX_HEIGHT_PER_COL then
            s\<lparr>col2 := col2 s @ [exp_html], col2_height := col2_height s + height\<rparr>
          else
            s\<lparr>pages := pages s @ [(col1 s, col2 s)], col1 := [exp_html], col2 := [],
              col1_height := height, col2_height := 0\<rparr>)"

text \<open>The closing statement \<open>if col1 or col2: pages.append((col1, col2))\<close>.\<close>

definition finish_layout :: "'a layout \<Rightarrow> ('a list \<times> 'a list) list" where
  "finish_layout s =
     (if col1 s \<noteq> [] \<or> col2 s \<noteq> [] then pages s @ [(col1 s, col2 s)] else pages s)"

definition pack_groups :: "('a \<times> int) list \<Rightarrow> ('a list \<times> 'a list) list" where
  "pack_groups all_exp_groups = finish_layout (foldl place_group layout_init all_exp_groups)"

text \<open>All fragments held by a list of pages, and by a layout in progress.\<close>

definition page_fragments :: "('a list \<times> 'a list) list \<Rightarrow> 'a list" where
  "page_fragments ps = concat (map (\<lambda>(c1, c2). c1 @ c2) ps)"

definition layout_fragments :: "'a layout \<Rightarrow> 'a list" where
  "layout_fragments s = page_fragments (pages s) @ col1 s @ col2 s"

section \<open>Pagination of the detail groups\<close>

text \<open>
  The first loop of \<open>split_experiences_into_pages\<close>: every group is rendered and given
  the estimated height \<open>len(experiences) * AVG_EXP_HEIGHT\<close> (\<open>exp_group_entry\<close> is the
  body of the loop).  \<open>grouped_work\<close> is the list of the items of the dictionary.
\<close>

definition exp_group_entry ::
    "int \<times> int \<Rightarrow> bool \<Rightarrow> lang \<Rightarrow> pystr \<times> work_entry list \<Rightarrow> error + (pystr \<times> int)" where
  "exp_group_entry now anonymize lang grp =
     (case grp of (company, experiences) \<Rightarrow>
        let color = get_company_color company
        in bind (render_experience_group now company experiences color anonymize lang)
             (\<lambda>exp_group_html.
                let estimated_height = int (length experiences) * AVG_EXP_HEIGHT
                in Inr (exp_group_html, estimated_height)))"

definition all_exp_groups ::
    "int \<times> int \<Rightarrow> (pystr \<times> work_entry list) list \<Rightarrow> bool \<Rightarrow> lang \<Rightarrow> error + (pystr \<times> int) list" where
  "all_exp_groups now grouped_work anonymize lang =
     map_raise (exp_group_entry now anonymize lang) grouped_work"

definition split_experiences_into_pages ::
    "int \<times> int \<Rightarrow> (pystr \<times> work_entry list) list \<Rightarrow> bool \<Rightarrow> lang \<Rightarrow>
     error + (pystr list \<times> pystr list) list" where
  "split_experiences_into_pages now grouped_work anonymize lang =
     bind (all_exp_groups now grouped_work anonymize lang) (\<lambda>groups. Inr (pack_groups groups))"

section \<open>Detail pages and document assembler\<close>

definition detail_page :: "labels \<Rightarrow> pystr \<Rightarrow> nat \<times> pystr list \<times> pystr list \<Rightarrow> pystr" where
  "detail_page lbl sidebar numbered =
     (case numbered of (page_num, col1_exps, col2_exps) \<Rightarrow>
        let col1_html = concat col1_exps;
            col2_html = concat col2_exps;
            num = str_of_int (int page_num)
        in str ''<!-- ========== PAGE '' @ num @
           str '' ========== -->\<newline><div class=\"page\">\<newline>'' @ str ''\<newline>'' @
           sidebar @ str ''\<newline>\<newline><!-- MAIN PAGE '' @ num @
           str '' -->\<newline><main class=\"mn\">\<newline>\<newline>'' @
           str ''  <div class=\"sec-title\">'' @ lbl_detail lbl @
           (if page_num > 2 then lbl_suite lbl else []) @
           str ''</div>\<newline>\<newline>  <div class=\"exp-cols\">\<newline>'' @
           str ''    <div class=\"exp-col\">\<newline>'' @ str ''\<newline>'' @ col1_html @
           str ''    </div>\<newline>\<newline>    <div class=\"exp-col\">\<newline>'' @
           str ''\<newline>'' @ col2_html @
           str ''    </div>\<newline>  </div>\<newline>\<newline></main>\<newline>'' @
           str ''\<newline><div class=\"page-num\">'' @ lbl_page lbl @ str '' '' @ num @
           str ''</div>\<newline>\<newline></div>\<newline>\<newline>'')"

definition render_detail_pages :: "int \<times> int \<Rightarrow> resume \<Rightarrow> bool \<Rightarrow> lang \<Rightarrow> error + pystr" where
  "render_detail_pages now resume_data anonymize lang =
     (let work = get_or (r_work resume_data) [];
          lbl = LABELS lang
      in bind (sidebar_of resume_data anonymize lang) (\<lambda>sidebar.
         let grouped_work = group_experiences_by_company work
         in bind (split_experiences_into_pages now grouped_work anonymize lang) (\<lambda>pages_data.
            Inr (concat (map (detail_page lbl sidebar) (enumerate 2 pages_data))))))"

text \<open>
  The loop of \<open>generate_html\<close> that rewrites the text fields of a work entry in place.
\<close>

definition anonymize_entry :: "work_entry \<Rightarrow> error + work_entry" where
  "anonymize_entry work_entry =
     bind (getitem (w_name work_entry)) (\<lambda>name.
     bind (getitem (w_position work_entry)) (\<lambda>position. Inr
       (work_entry\<lparr>w_name := Some (anonymize_text name),
           w_position := Some (anonymize_text position),
           w_summary := Some (anonymize_text (get_or (w_summary work_entry) [])),
           w_highlights := Some (map anonymize_text (get_or (w_highlights work_entry) []))\<rparr>)))"

definition anonymize_work :: "resume \<Rightarrow> error + resume" where
  "anonymize_work resume_data =
     (case r_work resume_data of
        None \<Rightarrow> Inr resume_data
      | Some work \<Rightarrow>
          bind (map_raise anonymize_entry work) (\<lambda>work'. Inr (resume_data\<lparr>r_work := Some work'\<rparr>)))"

text \<open>
  \<open>generate_html\<close>.  \<open>template_content\<close> is the text of the file \<open>cv_template.html\<close>,
  which the function reads after the pages are rendered; \<open>now\<close> is the current year and
  month.
\<close>

definition generate_html ::
    "pystr \<Rightarrow> int \<times> int \<Rightarrow> resume \<Rightarrow> bool \<Rightarrow> lang \<Rightarrow> error + pystr" where
  "generate_html template_content now resume_data0 anonymize lang =
     bind (if anonymize then anonymize_work resume_data0 else Inr resume_data0) (\<lambda>resume_data.
     bind (render_page_1 now resume_data anonymize lang) (\<lambda>page_1.
     bind (render_detail_pages now resume_data anonymize lang) (\<lambda>detail_pages.
     let html1 = replace template_content (str ''{{ lang }}'') (lang_code lang);
         html2 = replace html1 (str ''{{ name }}'')
                   (get_or (b_name (get_or (r_basics resume_data) no_basics)) []);
         html = replace html2 (str ''{{ content }}'') (page_1 @ [10] @ detail_pages)
     in Inr html)))"

section \<open>The specification's duration text\<close>

text \<open>
  The duration as the specification words it: the total of whole months between the two
  dates, split into years (\<open>div 12\<close>) and a remainder (\<open>mod 12\<close>); the remainder alone
  when there are no years, the years alone (singular or plural) when there is no
  remainder, and both otherwise.
\<close>

definition year_word :: "lang \<Rightarrow> int \<Rightarrow> pystr" where
  "year_word lang years = (if years = 1 then lbl_year (LABELS lang) else lbl_years (LABELS lang))"

definition spec_duration :: "lang \<Rightarrow> int \<times> int \<Rightarrow> int \<times> int \<Rightarrow> pystr" where
  "spec_duration lang start finish =
     (let months = (fst finish * 12 + snd finish) - (fst start * 12 + snd start);
          years = months div 12;
          remainder = months mod 12
      in if years = 0 then str_of_int remainder @ str '' '' @ lbl_months (LABELS lang)
         else if remainder = 0 then str_of_int years @ str '' '' @ year_word lang years
         else str_of_int years @ str '' '' @ year_word lang years @ str '' '' @
              str_of_int remainder @ str '' '' @ lbl_months (LABELS lang))"

section \<open>The specification's pagination algorithm\<close>

text \<open>
  The greedy single pass as the specification words it.  The state is the page in
  progress: the fragments and the accumulated height of each column.  For each group the
  candidate is the column with the smaller or equal height, column 1 on a tie; the group
  is appended there when the candidate's height plus the group's height stays within the
  budget; otherwise the current pair is emitted and a new page starts with the group
  alone in column 1.  At the end a page in progress with content is emitted.
\<close>

definition budget :: int where
  "budget = 255"

fun spec_pass :: "('a \<times> int) list \<Rightarrow> 'a list \<Rightarrow> int \<Rightarrow> 'a list \<Rightarrow> int \<Rightarrow> ('a list \<times> 'a list) list" where
  "spec_pass [] c1 h1 c2 h2 = (if c1 = [] \<and> c2 = [] then [] else [(c1, c2)])"
| "spec_pass ((fragment, h) # rest) c1 h1 c2 h2 =
     (let candidate_is_col1 = (h1 \<le> h2);
          candidate_height = (if candidate_is_col1 then h1 else h2)
      in if candidate_height + h \<le> budget then
           (if candidate_is_col1 then spec_pass rest (c1 @ [fragment]) (h1 + h) c2 h2
            else spec_pass rest c1 h1 (c2 @ [fragment]) (h2 + h))
         else (c1, c2) # spec_pass rest [fragment] h [] 0)"

definition spec_paginate :: "('a \<times> int) list \<Rightarrow> ('a list \<times> 'a list) list" where
  "spec_paginate groups = spec_pass groups [] 0 [] 0"

section \<open>The specification's grouping\<close>

text \<open>
  The elements of a list in the order of their first occurrence, and the test that a
  string still holds a parenthetical annotation: an opening parenthesis with a closing
  one somewhere behind it.
\<close>

definition first_occurrences :: "'a list \<Rightarrow> 'a list" where
  "first_occurrences xs = rev (remdups (rev xs))"

definition has_parenthetical :: "pystr \<Rightarrow> bool" where
  "has_parenthetical s = (41 \<in> set (dropWhile (\<lambda>c. c \<noteq> 40) s))"

text \<open>
  The normalization as the specification words it: every parenthetical annotation is
  stripped and the surrounding whitespace is trimmed.  An annotation starts where, after
  the whitespace in front of it, an opening parenthesis stands that is closed further on;
  it runs up to and including the first closing parenthesis.  \<open>drop_annotations\<close> reads
  the name from left to right, leaves out the characters of every annotation and keeps
  every other character in its place.
\<close>

definition annotation_starts :: "pystr \<Rightarrow> bool" where
  "annotation_starts s =
     (case dropWhile is_space s of [] \<Rightarrow> False | c # r \<Rightarrow> c = 40 \<and> 41 \<in> set r)"

fun drop_annotations :: "bool \<Rightarrow> pystr \<Rightarrow> pystr" where
  "drop_annotations inside [] = []"
| "drop_annotations inside (x # xs) =
     (if inside then drop_annotations (x \<noteq> 41) xs
      else if annotation_starts (x # xs) then drop_annotations True xs
      else x # drop_annotations False xs)"

definition spec_company_name :: "pystr \<Rightarrow> pystr" where
  "spec_company_name name = strip (drop_annotations False name)"

section \<open>The replacement texts of the rules\<close>

text \<open>The replacements of \<open>ANONYMIZATION_RULES\<close> that are plain text, without a group reference.\<close>

definition fixed_replacements :: "pystr list" where
  "fixed_replacements =
     concat (map (\<lambda>(pattern, replacement, desc).
                    case replacement of [RLit t] \<Rightarrow> [t] | _ \<Rightarrow> []) ANONYMIZATION_RULES)"

section \<open>Preconditions of the renderers\<close>

text \<open>
  The four keys that the renderers read with \<open>exp[key]\<close>, and the end dates on which
  \<open>calculate_duration\<close> does not raise: absent, null, empty or parseable.
\<close>

definition has_required_keys :: "work_entry \<Rightarrow> bool" where
  "has_required_keys w =
     (w_name w \<noteq> None \<and> w_position w \<noteq> None \<and> w_startDate w \<noteq> None \<and> w_endDate w \<noteq> None)"

definition end_readable :: "work_entry \<Rightarrow> bool" where
  "end_readable w =
     (falsy (get_nullable (w_endDate w)) \<or> parse_date (get_nullable (w_endDate w)) \<noteq> None)"

section \<open>Example records\<close>

text \<open>A work entry with the four keys the renderers index and neither summary nor highlights.\<close>

definition plain_entry :: work_entry where
  "plain_entry =
     \<lparr>w_name = Some (str ''SFEIR''), w_position = Some (str ''Dev''),
      w_startDate = Some (Some (str ''2020-01'')), w_endDate = Some (Some (str ''2021-01'')),
      w_summary = None, w_highlights = None\<rparr>"

text \<open>Three groups named by their position, the second one higher than a column.\<close>

definition tagged_groups :: "(nat \<times> int) list" where
  "tagged_groups = [(0, 35), (1, 280), (2, 35)]"

text \<open>An employer name with surrounding blanks and a parenthetical annotation.\<close>

definition annotated_entry :: work_entry where
  "annotated_entry = plain_entry\<lparr>w_name := Some (str ''  SFEIR (LVMH) '')\<rparr>"

text \<open>An annotation in the middle of the employer name.\<close>

definition inner_annotated_entry :: work_entry where
  "inner_annotated_entry = plain_entry\<lparr>w_name := Some (str ''SFEIR (LVMH) Paris'')\<rparr>"

text \<open>
  An employer name between an ideographic space (U+3000) and a narrow no-break space
  (U+202F).
\<close>

definition wide_spaced_entry :: work_entry where
  "wide_spaced_entry = plain_entry\<lparr>w_name := Some (12288 # str ''SFEIR'' @ [8239])\<rparr>"

text \<open>
  Two engagements for one company: the first one closed in January 2020, the second one
  open-ended (an empty end date).
\<close>

definition closed_entry :: work_entry where
  "closed_entry =
     \<lparr>w_name = Some (str ''SFEIR''), w_position = Some (str ''Dev''),
      w_startDate = Some (Some (str ''2019-01'')), w_endDate = Some (Some (str ''2020-01'')),
      w_summary = None, w_highlights = None\<rparr>"

definition ongoing_entry :: work_entry where
  "ongoing_entry =
     \<lparr>w_name = Some (str ''SFEIR''), w_position = Some (str ''Lead''),
      w_startDate = Some (Some (str ''2020-02'')), w_endDate = Some (Some []),
      w_summary = None, w_highlights = None\<rparr>"

text \<open>A record with work entries only.\<close>

definition work_only :: "work_entry list \<Rightarrow> resume" where
  "work_only ws =
     \<lparr>r_basics = None, r_work = Some ws, r_skills = None, r_education = None,
      r_certificates = None, r_languages = None, r_interests = None\<rparr>"

text \<open>An entry without the key \<open>name\<close> whose end date is malformed.\<close>

definition nameless_entry :: work_entry where
  "nameless_entry =
     \<lparr>w_name = None, w_position = Some (str ''Dev''),
      w_startDate = Some (Some (str ''2020-01'')), w_endDate = Some (Some (str ''2021'')),
      w_summary = None, w_highlights = None\<rparr>"

text \<open>An entry without the key \<open>endDate\<close>.\<close>

definition undated_entry :: work_entry where
  "undated_entry = plain_entry\<lparr>w_endDate := None\<rparr>"

section \<open>Properties of the pagination engine\<close>

lemma page_fragments_append:
  "page_fragments (ps @ qs) = page_fragments ps @ page_fragments qs"
  by (simp add: page_fragments_def)

lemma page_fragments_single: "page_fragments [(c1, c2)] = c1 @ c2"
  by (simp add: page_fragments_def)

lemma mset_place_group:
  "mset (layout_fragments (place_group s g)) = mset (layout_fragments s) + {#fst g#}"
  by (cases g) (simp add: place_group_def layout_fragments_def page_fragments_append
      page_fragments_single)

lemma mset_foldl_place_group:
  "mset (layout_fragments (foldl place_group s gs)) =
     mset (layout_fragments s) + mset (map fst gs)"
  by (induction gs arbitrary: s) (simp_all add: mset_place_group)

lemma mset_finish_layout:
  "mset (page_fragments (finish_layout s)) = mset (layout_fragments s)"
  by (simp add: finish_layout_def layout_fragments_def page_fragments_append
      page_fragments_single)

lemma layout_fragments_init: "layout_fragments layout_init = []"
  by (simp add: layout_fragments_def layout_init_def page_fragments_def)

lemma mset_pack_groups: "mset (page_fragments (pack_groups gs)) = mset (map fst gs)"
  by (simp add: pack_groups_def mset_finish_layout mset_foldl_place_group
      layout_fragments_init)

section \<open>Properties of the date and duration formatter\<close>

lemmas date_eval =
  parse_date_def falsy_def strptime_Y_m_def month_directive_def str_def is_digit_def
  digit_val_def

lemma parse_date_Some_not_falsy: "parse_date v = Some d \<Longrightarrow> \<not> falsy v"
  by (auto simp: parse_date_def)

lemma months_rearrange:
  "((ey::int) * 12 + em) - (sy * 12 + sm) = (ey - sy) * 12 + (em - sm)"
  by (simp add: algebra_simps)

text \<open>
  \<open>calculate_duration\<close> raises exactly when the start parses and the end is a non-empty
  string that does not.
\<close>

lemma calculate_duration_raises_iff:
  "(\<exists>e. calculate_duration now start finish lang = Inl e) \<longleftrightarrow>
     parse_date start \<noteq> None \<and> \<not> falsy finish \<and> parse_date finish = None"
  by (auto simp: calculate_duration_def Let_def split: option.splits prod.splits)

lemma calculate_duration_error:
  "calculate_duration now start finish lang = Inl e \<Longrightarrow> e = AttributeError"
  by (auto simp: calculate_duration_def Let_def split: option.splits prod.splits if_splits)

text \<open>
  Claim C8.  For two dates that parse, \<open>calculate_duration\<close> returns the duration text of
  the specification: total months \<open>(year difference) * 12 + (month difference)\<close>, years
  \<open>months div 12\<close>, remainder \<open>months mod 12\<close>, rendered remainder-only, years-only
  (singular or plural) or both.  The three examples of the specification evaluate as
  stated, whatever the current date.
\<close>

theorem calculate_duration_spec:
  "(\<forall>start finish sy sm ey em now lang.
      parse_date (Some start) = Some (sy, sm) \<longrightarrow> parse_date (Some finish) = Some (ey, em) \<longrightarrow>
      calculate_duration now (Some start) (Some finish) lang =
        Inr (spec_duration lang (sy, sm) (ey, em))) \<and>
   (\<forall>now. calculate_duration now (Some (str ''2020-01'')) (Some (str ''2021-07'')) En =
      Inr (str ''1 year 6 months'')) \<and>
   (\<forall>now. calculate_duration now (Some (str ''2020-01'')) (Some (str ''2021-01'')) En =
      Inr (str ''1 year'')) \<and>
   (\<forall>now. calculate_duration now (Some (str ''2020-01'')) (Some (str ''2020-04'')) En =
      Inr (str ''3 months''))"
proof (intro conjI allI impI)
  fix start finish sy sm ey em now lang
  assume s: "parse_date (Some start) = Some (sy, sm)"
    and e: "parse_date (Some finish) = Some (ey, em)"
  from e have "\<not> falsy (Some finish)" by (rule parse_date_Some_not_falsy)
  with s e show "calculate_duration now (Some start) (Some finish) lang =
      Inr (spec_duration lang (sy, sm) (ey, em))"
    by (simp add: calculate_duration_def spec_duration_def year_word_def Let_def months_rearrange)
next
  fix now
  show "calculate_duration now (Some (str ''2020-01'')) (Some (str ''2021-07'')) En =
      Inr (str ''1 year 6 months'')"
    by (simp add: calculate_duration_def date_eval LABELS_def str_of_int_def Let_def)
next
  fix now
  show "calculate_duration now (Some (str ''2020-01'')) (Some (str ''2021-01'')) En =
      Inr (str ''1 year'')"
    by (simp add: calculate_duration_def date_eval LABELS_def str_of_int_def Let_def)
next
  fix now
  show "calculate_duration now (Some (str ''2020-01'')) (Some (str ''2020-04'')) En =
      Inr (str ''3 months'')"
    by (simp add: calculate_duration_def date_eval LABELS_def str_of_int_def Let_def)
qed

theorem calculate_duration_spec_witness:
  "parse_date (Some (str ''2019-03'')) = Some (2019, 3) \<and>
   parse_date (Some (str ''2021-07'')) = Some (2021, 7) \<and>
   calculate_duration (2026, 11) (Some (str ''2019-03'')) (Some (str ''2021-07'')) Fr =
     Inr (str ''2 ans 4 mois'')"
proof -
  have s: "parse_date (Some (str ''2019-03'')) = Some (2019, 3)"
    by (simp add: date_eval)
  have e: "parse_date (Some (str ''2021-07'')) = Some (2021, 7)"
    by (simp add: date_eval)
  have v: "spec_duration Fr (2019, 3) (2021, 7) = str ''2 ans 4 mois''"
    by (simp add: spec_duration_def year_word_def LABELS_def str_of_int_def str_def Let_def)
  from calculate_duration_spec s e
  have "calculate_duration (2026, 11) (Some (str ''2019-03'')) (Some (str ''2021-07'')) Fr =
      Inr (spec_duration Fr (2019, 3) (2021, 7))"
    by blast
  with s e v show ?thesis by simp
qed

text \<open>
  Claim C9.  The claim asks that neither function ever raises.  \<open>format_date\<close> is total
  and \<open>calculate_duration\<close> returns the empty string for a start that does not parse, but
  with a start that parses and the malformed end \<open>"2021"\<close> the function reaches
  \<open>end_dt.year\<close> with \<open>end_dt = None\<close> and raises \<open>AttributeError\<close>.
\<close>

theorem calculate_duration_malformed_end_raises:
  "calculate_duration now (Some (str ''2020-01'')) (Some (str ''2021'')) lang = Inl AttributeError"
  by (simp add: calculate_duration_def date_eval Let_def)

text \<open>The part of the claim that the code keeps.\<close>

lemma format_date_malformed:
  "s \<noteq> [] \<Longrightarrow> parse_date (Some s) = None \<Longrightarrow> format_date (Some s) lang = s"
  by (simp add: format_date_def falsy_def)

lemma calculate_duration_malformed_start:
  "parse_date start = None \<Longrightarrow> calculate_duration now start finish lang = Inr []"
  by (simp add: calculate_duration_def Let_def)

lemma length_page_fragments:
  "length (page_fragments ps) = sum_list (map (\<lambda>(c1, c2). length c1 + length c2) ps)"
  by (induction ps) (auto simp: page_fragments_def)

lemma bind_Inr_iff: "bind m f = Inr y \<longleftrightarrow> (\<exists>v. m = Inr v \<and> f v = Inr y)"
  by (cases m) (simp_all add: bind_def)

lemma bind_Inl_iff: "bind m f = Inl e \<longleftrightarrow> m = Inl e \<or> (\<exists>v. m = Inr v \<and> f v = Inl e)"
  by (cases m) (simp_all add: bind_def)

lemma bind_Inr [simp]: "bind (Inr v) f = f v"
  by (simp add: bind_def)

lemma bind_Inl [simp]: "bind (Inl e) f = Inl e"
  by (simp add: bind_def)

lemma map_raise_length: "map_raise f xs = Inr ys \<Longrightarrow> length ys = length xs"
  by (induction xs arbitrary: ys) (auto simp: bind_Inr_iff)

lemma map_raise_Inr_iff:
  "map_raise f xs = Inr ys \<longleftrightarrow> list_all2 (\<lambda>x y. f x = Inr y) xs ys"
proof (induction xs arbitrary: ys)
  case Nil
  show ?case by auto
next
  case (Cons x xs)
  show ?case by (cases ys) (auto simp: bind_Inr_iff Cons.IH)
qed

lemma render_experience_with_keys:
  assumes "w_name exp = Some n" "w_position exp = Some p" "w_startDate exp = Some s"
    "w_endDate exp = Some e" "calculate_duration now s e lang = Inr d"
  shows "\<exists>h. render_experience now company color anonymize lang exp = Inr h"
  using assms by (simp add: render_experience_def getitem_def Let_def)

lemma map_raise_replicate:
  "f x = Inr y \<Longrightarrow> map_raise f (replicate n x) = Inr (replicate n y)"
  by (induction n) simp_all

lemma plain_entry_duration:
  "calculate_duration now (Some (str ''2020-01'')) (Some (str ''2021-01'')) lang =
     Inr (str ''1 '' @ lbl_year (LABELS lang))"
  by (simp add: calculate_duration_def date_eval Let_def str_of_int_def)

lemma plain_entry_renders:
  "\<exists>h. render_experience now company color anonymize lang plain_entry = Inr h"
  by (simp add: render_experience_def getitem_def plain_entry_def plain_entry_duration Let_def)

lemma sum_pack_groups:
  "sum_list (map (\<lambda>(c1, c2). length c1 + length c2) (pack_groups gs)) = length gs"
proof -
  have "length (page_fragments (pack_groups gs)) = length (map fst gs)"
    using mset_pack_groups [of gs] by (metis size_mset)
  then show ?thesis by (simp add: length_page_fragments)
qed

text \<open>
  Claim C1.  The packing loop places every fragment exactly once: the fragments of the
  emitted pages are, as a multiset, those of the input, so their number is the number of
  groups, and fragments that differ in the input stay pairwise different across all
  columns and pages.  No groups give no pages.  \<open>split_experiences_into_pages\<close> raises
  only when rendering a group raises; when it returns, its pages are the packing of
  one rendered fragment per input group.
\<close>

theorem pagination_places_every_group_once:
  "mset (page_fragments (pack_groups gs)) = mset (map fst gs) \<and>
   sum_list (map (\<lambda>(c1, c2). length c1 + length c2) (pack_groups gs)) = length gs \<and>
   (distinct (map fst gs) \<longrightarrow> distinct (page_fragments (pack_groups gs))) \<and>
   pack_groups ([] :: ('a \<times> int) list) = [] \<and>
   (split_experiences_into_pages now grouped_work anonymize lang = Inl e \<longleftrightarrow>
      all_exp_groups now grouped_work anonymize lang = Inl e) \<and>
   (split_experiences_into_pages now grouped_work anonymize lang = Inr pgs \<longrightarrow>
      (\<exists>groups. all_exp_groups now grouped_work anonymize lang = Inr groups \<and>
         length groups = length grouped_work \<and> pgs = pack_groups groups \<and>
         mset (page_fragments pgs) = mset (map fst groups) \<and>
         sum_list (map (\<lambda>(c1, c2). length c1 + length c2) pgs) = length grouped_work))"
proof (intro conjI impI)
  show "mset (page_fragments (pack_groups gs)) = mset (map fst gs)"
    by (rule mset_pack_groups)
  show "sum_list (map (\<lambda>(c1, c2). length c1 + length c2) (pack_groups gs)) = length gs"
    by (rule sum_pack_groups)
  show "distinct (page_fragments (pack_groups gs))" if "distinct (map fst gs)"
    using that mset_pack_groups [of gs] by (metis mset_eq_imp_distinct_iff)
  show "pack_groups ([] :: ('a \<times> int) list) = []"
    by (simp add: pack_groups_def finish_layout_def layout_init_def)
  show "split_experiences_into_pages now grouped_work anonymize lang = Inl e \<longleftrightarrow>
      all_exp_groups now grouped_work anonymize lang = Inl e"
    by (simp add: split_experiences_into_pages_def bind_Inl_iff)
  show "\<exists>groups. all_exp_groups now grouped_work anonymize lang = Inr groups \<and>
         length groups = length grouped_work \<and> pgs = pack_groups groups \<and>
         mset (page_fragments pgs) = mset (map fst groups) \<and>
         sum_list (map (\<lambda>(c1, c2). length c1 + length c2) pgs) = length grouped_work"
    if "split_experiences_into_pages now grouped_work anonymize lang = Inr pgs"
  proof -
    from that obtain groups where g: "all_exp_groups now grouped_work anonymize lang = Inr groups"
      and p: "pgs = pack_groups groups"
      by (auto simp: split_experiences_into_pages_def bind_Inr_iff)
    from g have l: "length groups = length grouped_work"
      unfolding all_exp_groups_def by (rule map_raise_length)
    with g p mset_pack_groups [of groups] sum_pack_groups [of groups] show ?thesis by simp
  qed
qed

theorem pagination_places_every_group_once_witness:
  "distinct (map fst tagged_groups) \<and>
   distinct (page_fragments (pack_groups tagged_groups)) \<and>
   (\<exists>pgs. split_experiences_into_pages (2026, 11) [(str ''SFEIR'', [plain_entry])] False Fr = Inr pgs \<and>
      sum_list (map (\<lambda>(c1, c2). length c1 + length c2) pgs) = 1)"
proof -
  have d: "distinct (map fst tagged_groups)"
    by (simp add: tagged_groups_def)
  obtain h where h: "render_experience (2026, 11) (str ''SFEIR'') (get_company_color (str ''SFEIR''))
      False Fr plain_entry = Inr h"
    using plain_entry_renders by blast
  have "\<exists>gs. all_exp_groups (2026, 11) [(str ''SFEIR'', [plain_entry])] False Fr = Inr gs"
    by (simp add: all_exp_groups_def exp_group_entry_def render_experience_group_def h Let_def)
  then obtain pgs where p: "split_experiences_into_pages (2026, 11) [(str ''SFEIR'', [plain_entry])]
      False Fr = Inr pgs"
    by (auto simp: split_experiences_into_pages_def)
  note t = pagination_places_every_group_once [where gs = tagged_groups and now = "(2026, 11)"
      and grouped_work = "[(str ''SFEIR'', [plain_entry])]" and anonymize = False and lang = Fr
      and pgs = pgs]
  from t d have "distinct (page_fragments (pack_groups tagged_groups))" by blast
  moreover from t p have "sum_list (map (\<lambda>(c1, c2). length c1 + length c2) pgs) = 1" by auto
  ultimately show ?thesis using d p by blast
qed

lemma pack_single_oversized: "255 < h \<Longrightarrow> pack_groups [(g, h)] = [([], []), ([g], [])]"
  by (simp add: pack_groups_def place_group_def layout_init_def finish_layout_def
      MAX_HEIGHT_PER_COL_def)

text \<open>
  Claim C2.  The claim asks that no emitted page has two empty columns and that a single
  group higher than the budget gives exactly one page.  When the first group does not fit
  the empty first page, the loop emits the pair of two empty columns before it starts
  the page of that group: eight entries of one company (estimated height 280) give two
  pages, the first one empty.  The closing statement of the function does guard against
  an empty pair (\<open>if col1 or col2\<close>); the branch inside the loop does not.
\<close>

theorem oversized_first_group_emits_empty_page:
  "pack_groups [(g, 8 * AVG_EXP_HEIGHT)] = [([], []), ([g], [])] \<and>
   (\<exists>html. split_experiences_into_pages now [(str ''SFEIR'', replicate 8 plain_entry)] anonymize lang =
      Inr [([], []), ([html], [])])"
proof
  show "pack_groups [(g, 8 * AVG_EXP_HEIGHT)] = [([], []), ([g], [])]"
    by (simp add: pack_single_oversized AVG_EXP_HEIGHT_def)
  obtain h where h: "render_experience now (str ''SFEIR'') (get_company_color (str ''SFEIR''))
      anonymize lang plain_entry = Inr h"
    using plain_entry_renders by blast
  from h have "map_raise (render_experience now (str ''SFEIR'') (get_company_color (str ''SFEIR''))
      anonymize lang) (replicate 8 plain_entry) = Inr (replicate 8 h)"
    by (rule map_raise_replicate)
  then have "\<exists>html. all_exp_groups now [(str ''SFEIR'', replicate 8 plain_entry)] anonymize lang =
      Inr [(html, 280)]"
    by (simp add: all_exp_groups_def exp_group_entry_def render_experience_group_def
        AVG_EXP_HEIGHT_def Let_def)
  then obtain html where "all_exp_groups now [(str ''SFEIR'', replicate 8 plain_entry)] anonymize lang =
      Inr [(html, 280)]" by blast
  then show "\<exists>html. split_experiences_into_pages now [(str ''SFEIR'', replicate 8 plain_entry)]
      anonymize lang = Inr [([], []), ([html], [])]"
    by (simp add: split_experiences_into_pages_def pack_single_oversized)
qed

text \<open>
  This is the only way to an empty page: when the first group fits, every page has
  content.
\<close>

lemma place_group_keeps_col1: "col1 s \<noteq> [] \<Longrightarrow> col1 (place_group s g) \<noteq> []"
  by (cases g) (simp add: place_group_def)

lemma place_group_pages:
  "col1 s \<noteq> [] \<Longrightarrow> \<forall>p \<in> set (pages s). fst p \<noteq> [] \<or> snd p \<noteq> [] \<Longrightarrow>
   \<forall>p \<in> set (pages (place_group s g)). fst p \<noteq> [] \<or> snd p \<noteq> []"
  by (cases g) (auto simp: place_group_def)

lemma foldl_place_group_nonempty:
  "col1 s \<noteq> [] \<Longrightarrow> \<forall>p \<in> set (pages s). fst p \<noteq> [] \<or> snd p \<noteq> [] \<Longrightarrow>
   \<forall>p \<in> set (finish_layout (foldl place_group s gs)). fst p \<noteq> [] \<or> snd p \<noteq> []"
proof (induction gs arbitrary: s)
  case Nil
  then show ?case by (auto simp: finish_layout_def)
next
  case (Cons g gs)
  have 1: "col1 (place_group s g) \<noteq> []"
    using Cons.prems(1) by (rule place_group_keeps_col1)
  have 2: "\<forall>p \<in> set (pages (place_group s g)). fst p \<noteq> [] \<or> snd p \<noteq> []"
    using Cons.prems by (rule place_group_pages)
  from Cons.IH [OF 1 2] show ?case by simp
qed

lemma no_empty_page_when_first_group_fits:
  assumes "h \<le> 255"
  shows "\<forall>p \<in> set (pack_groups ((g, h) # gs)). fst p \<noteq> [] \<or> snd p \<noteq> []"
proof -
  have 1: "col1 (place_group layout_init (g, h)) \<noteq> []"
    using assms by (simp add: place_group_def layout_init_def MAX_HEIGHT_PER_COL_def)
  have 2: "\<forall>p \<in> set (pages (place_group layout_init (g, h))). fst p \<noteq> [] \<or> snd p \<noteq> []"
    using assms by (simp add: place_group_def layout_init_def MAX_HEIGHT_PER_COL_def)
  from foldl_place_group_nonempty [OF 1 2] show ?thesis
    by (simp add: pack_groups_def)
qed

text \<open>The loop of the source is the pass of the specification.\<close>

lemma finish_foldl_spec_pass:
  "finish_layout (foldl place_group s gs) =
     pages s @ spec_pass gs (col1 s) (col1_height s) (col2 s) (col2_height s)"
proof (induction gs arbitrary: s)
  case Nil
  show ?case by (auto simp: finish_layout_def)
next
  case (Cons g gs)
  obtain fragment h where g: "g = (fragment, h)" by (cases g)
  let ?s = "place_group s g"
  have "finish_layout (foldl place_group s (g # gs)) =
      pages ?s @ spec_pass gs (col1 ?s) (col1_height ?s) (col2 ?s) (col2_height ?s)"
    by (simp add: Cons.IH)
  also have "\<dots> = pages s @ spec_pass (g # gs) (col1 s) (col1_height s) (col2 s) (col2_height s)"
    by (simp add: g place_group_def budget_def MAX_HEIGHT_PER_COL_def Let_def)
  finally show ?case .
qed

lemma pack_groups_spec: "pack_groups gs = spec_paginate gs"
  by (simp add: pack_groups_def spec_paginate_def finish_foldl_spec_pass layout_init_def)

text \<open>
  Claim C3.  The packing loop of \<open>split_experiences_into_pages\<close> computes exactly the
  greedy single pass of the specification, on every list of groups; the function itself
  is that pass applied to the rendered groups.
\<close>

theorem pagination_is_the_specified_pass:
  "pack_groups gs = spec_paginate gs \<and>
   split_experiences_into_pages now grouped_work anonymize lang =
     bind (all_exp_groups now grouped_work anonymize lang) (\<lambda>groups. Inr (spec_paginate groups))"
  by (simp add: pack_groups_spec split_experiences_into_pages_def)

section \<open>Properties of the grouping engine\<close>

lemma first_occurrences_snoc:
  "first_occurrences (xs @ [x]) =
     (if x \<in> set xs then first_occurrences xs else first_occurrences xs @ [x])"
  by (simp add: first_occurrences_def)

lemma distinct_first_occurrences: "distinct (first_occurrences xs)"
  by (simp add: first_occurrences_def)

lemma set_first_occurrences: "set (first_occurrences xs) = set xs"
  by (simp add: first_occurrences_def)

lemma group_add_map:
  "distinct ks \<Longrightarrow>
   group_add (map (\<lambda>k. (k, f k)) ks) k0 w =
     (if k0 \<in> set ks then map (\<lambda>k. (k, if k = k0 then f k @ [w] else f k)) ks
      else map (\<lambda>k. (k, f k)) ks @ [(k0, [w])])"
  by (induction ks) auto

lemma grouping_general:
  "foldl (\<lambda>grouped w. group_add grouped (key w) w) [] ws =
     map (\<lambda>k. (k, filter (\<lambda>w. key w = k) ws)) (first_occurrences (map key ws))"
proof (induction ws rule: rev_induct)
  case Nil
  show ?case by (simp add: first_occurrences_def)
next
  case (snoc w ws)
  let ?ks = "first_occurrences (map key ws)"
  have "foldl (\<lambda>grouped w. group_add grouped (key w) w) [] (ws @ [w]) =
      group_add (map (\<lambda>k. (k, filter (\<lambda>w. key w = k) ws)) ?ks) (key w) w"
    by (simp add: snoc.IH)
  also have "\<dots> = map (\<lambda>k. (k, filter (\<lambda>w. key w = k) (ws @ [w])))
      (first_occurrences (map key (ws @ [w])))"
  proof (cases "key w \<in> set (map key ws)")
    case True
    then show ?thesis
      by (simp add: group_add_map distinct_first_occurrences set_first_occurrences
          first_occurrences_snoc)
  next
    case False
    then have "\<forall>v \<in> set ws. key v \<noteq> key w"
      by (metis imageI set_map)
    then have "filter (\<lambda>v. key v = key w) ws = []"
      by (simp add: filter_empty_conv)
    with False show ?thesis
      by (auto simp: group_add_map distinct_first_occurrences set_first_occurrences
          first_occurrences_snoc)
  qed
  finally show ?case .
qed

lemma group_add_sizes:
  "sum_list (map (\<lambda>(k, es). length es) (group_add grouped k w)) =
     Suc (sum_list (map (\<lambda>(k, es). length es) grouped))"
  by (induction grouped k w rule: group_add.induct) auto

lemma grouping_sizes:
  "sum_list (map (\<lambda>(k, es). length es) (foldl (\<lambda>grouped w. group_add grouped (key w) w) g ws)) =
     sum_list (map (\<lambda>(k, es). length es) g) + length ws"
  by (induction ws arbitrary: g) (simp_all add: group_add_sizes)

lemma first_some_None_iff: "first_some f xs = None \<longleftrightarrow> (\<forall>x \<in> set xs. f x = None)"
  by (induction xs) (auto split: option.splits)

lemma first_some_SomeD: "first_some f xs = Some y \<Longrightarrow> \<exists>x \<in> set xs. f x = Some y"
  by (induction xs) (auto split: option.splits)

lemma drop_takeWhile_length: "drop (length (takeWhile P xs)) xs = dropWhile P xs"
  by (induction xs) auto

lemma not_close_class: "cls_ok False (NoneOf [41]) = (\<lambda>c. c \<noteq> 41)"
  by (rule ext) simp

lemma star_candidates: "rev [0..<Suc k] = k # rev [0..<k]"
  by simp

lemma close_paren_match:
  "rmatch False [One (Lit 41)] prev s n g =
     (case s of [] \<Rightarrow> None | x # xs \<Rightarrow> if x = 41 then Some (n + 1, g) else None)"
  by (simp split: list.splits)

lemma body_unfold:
  "rmatch False [Star (NoneOf [41]), One (Lit 41)] prev r n g =
     first_some (\<lambda>j. rmatch False [One (Lit 41)] (prev_after prev r j) (drop j r) (n + j) g)
       (rev [0..<Suc (length (takeWhile (\<lambda>c. c \<noteq> 41) r))])"
  by (simp only: rmatch.simps not_close_class)


lemma dropWhile_to_close: "41 \<in> set r \<Longrightarrow> \<exists>xs. dropWhile (\<lambda>c. c \<noteq> (41::nat)) r = 41 # xs"
  by (induction r) auto

lemma drop_without_close: "41 \<notin> set r \<Longrightarrow> drop j r = x # xs \<Longrightarrow> x \<noteq> (41::nat)"
  by (metis in_set_dropD list.set_intros(1))

lemma body_match_yes:
  assumes "41 \<in> set r"
  shows "rmatch False [Star (NoneOf [41]), One (Lit 41)] prev r n g =
     Some (n + length (takeWhile (\<lambda>c. c \<noteq> 41) r) + 1, g)"
proof -
  let ?k = "length (takeWhile (\<lambda>c. c \<noteq> 41) r)"
  from assms obtain xs where d: "dropWhile (\<lambda>c. c \<noteq> 41) r = 41 # xs"
    using dropWhile_to_close by blast
  have "drop ?k r = 41 # xs"
    by (simp only: drop_takeWhile_length d)
  then have "rmatch False [One (Lit 41)] (prev_after prev r ?k) (drop ?k r) (n + ?k) g =
      Some (n + ?k + 1, g)"
    by (simp only: close_paren_match list.case refl if_True)
  then show ?thesis
    by (simp only: body_unfold star_candidates first_some.simps option.case)
qed

lemma body_match_no:
  assumes "41 \<notin> set r"
  shows "rmatch False [Star (NoneOf [41]), One (Lit 41)] prev r n g = None"
proof -
  have "rmatch False [One (Lit 41)] p (drop j r) m g = None" for p j m
  proof (cases "drop j r")
    case Nil
    then show ?thesis by (simp only: close_paren_match list.case)
  next
    case (Cons x xs)
    with assms have "x \<noteq> 41" by (rule drop_without_close)
    with Cons show ?thesis by (simp only: close_paren_match list.case if_False)
  qed
  then show ?thesis
    by (simp only: body_unfold first_some_None_iff) blast
qed

lemma body_match:
  "rmatch False [Star (NoneOf [41]), One (Lit 41)] prev r n g =
     (if 41 \<in> set r then Some (n + length (takeWhile (\<lambda>c. c \<noteq> 41) r) + 1, g) else None)"
proof (cases "41 \<in> set r")
  case True
  then show ?thesis by (simp only: body_match_yes [OF True] if_True)
next
  case False
  then show ?thesis by (simp only: body_match_no [OF False] if_False)
qed

lemma space_class: "cls_ok False Space = is_space"
  by (rule ext) simp

lemma star_space_unfold:
  "rmatch False (Star Space # re) prev s n g =
     first_some (\<lambda>j. rmatch False re (prev_after prev s j) (drop j s) (n + j) g)
       (rev [0..<Suc (length (takeWhile is_space s))])"
  by (simp only: rmatch.simps space_class)

lemma open_paren_match:
  "rmatch False (One (Lit 40) # re) prev s n g =
     (case s of [] \<Rightarrow> None
      | x # xs \<Rightarrow> if x = 40 then rmatch False re (Some x) xs (n + 1) g else None)"
  by (simp split: list.splits)

lemma parenthetical_at_open:
  "rmatch False parenthetical prev (40 # xs) 0 None = None \<Longrightarrow> 41 \<notin> set xs"
proof -
  assume a: "rmatch False parenthetical prev (40 # xs) 0 None = None"
  have "takeWhile is_space (40 # xs) = []"
    by (simp add: is_space_def)
  then have "rmatch False parenthetical prev (40 # xs) 0 None =
      rmatch False [Star (NoneOf [41]), One (Lit 41)] (Some 40) xs 1 None"
    by (simp add: parenthetical_def star_space_unfold open_paren_match prev_after_def
        is_space_def del: rmatch.simps split: option.split)
  with a have "rmatch False [Star (NoneOf [41]), One (Lit 41)] (Some 40) xs 1 None = None"
    by (simp only:)
  then have n: "(if 41 \<in> set xs then Some (1 + length (takeWhile (\<lambda>c. c \<noteq> 41) xs) + 1, None)
      else None) = (None :: (nat \<times> (nat \<times> nat) option) option)"
    by (simp only: body_match)
  show ?thesis
  proof
    assume "41 \<in> set xs"
    with n show False by simp
  qed
qed

lemma parenthetical_nonempty:
  assumes "rmatch False parenthetical prev s 0 None = Some (n, g)"
  shows "0 < n"
proof -
  from assms obtain j where
    j: "rmatch False [One (Lit 40), Star (NoneOf [41]), One (Lit 41)] (prev_after prev s j)
          (drop j s) (0 + j) None = Some (n, g)"
    unfolding parenthetical_def star_space_unfold by (blast dest: first_some_SomeD)
  then show ?thesis
    by (auto simp only: open_paren_match body_match split: list.splits if_splits)
qed

lemma has_parenthetical_Cons:
  "has_parenthetical (x # xs) = (if x = 40 then 41 \<in> set xs else has_parenthetical xs)"
  by (simp add: has_parenthetical_def)

lemma has_parenthetical_iff:
  "has_parenthetical s \<longleftrightarrow> (\<exists>a b c. s = a @ 40 # b @ 41 # c)"
proof
  assume "has_parenthetical s"
  then have m: "41 \<in> set (dropWhile (\<lambda>c. c \<noteq> 40) s)"
    by (simp add: has_parenthetical_def)
  then have "dropWhile (\<lambda>c. c \<noteq> 40) s \<noteq> []"
    by (metis empty_iff empty_set)
  then obtain r where r: "dropWhile (\<lambda>c. c \<noteq> 40) s = 40 # r"
    by (metis (mono_tags, lifting) hd_dropWhile list.exhaust_sel)
  with m have "41 \<in> set r" by simp
  then obtain b c where "r = b @ 41 # c" by (meson split_list)
  with r have "s = takeWhile (\<lambda>c. c \<noteq> 40) s @ 40 # b @ 41 # c"
    by (metis takeWhile_dropWhile_id)
  then show "\<exists>a b c. s = a @ 40 # b @ 41 # c" by blast
next
  assume "\<exists>a b c. s = a @ 40 # b @ 41 # c"
  then obtain a b c where "s = a @ 40 # b @ 41 # c" by blast
  then show "has_parenthetical s"
    by (induction a arbitrary: s) (auto simp: has_parenthetical_Cons)
qed

lemma has_parenthetical_sublist:
  "has_parenthetical u \<Longrightarrow> has_parenthetical (a @ u @ c)"
proof -
  assume "has_parenthetical u"
  then obtain a' b c' where "u = a' @ 40 # b @ 41 # c'"
    unfolding has_parenthetical_iff by blast
  then have "a @ u @ c = (a @ a') @ 40 # b @ 41 # (c' @ c)" by simp
  then show ?thesis unfolding has_parenthetical_iff by blast
qed

lemma strip_sublist: "\<exists>a c. s = a @ strip s @ c"
proof -
  let ?t = "dropWhile is_space s"
  have "s = takeWhile is_space s @ ?t" by simp
  moreover have "?t = strip s @ rev (takeWhile is_space (rev ?t))"
    unfolding strip_def by (metis rev_append rev_rev_ident takeWhile_dropWhile_id)
  ultimately show ?thesis by metis
qed

lemma strip_keeps_no_parenthetical:
  "\<not> has_parenthetical s \<Longrightarrow> \<not> has_parenthetical (strip s)"
  by (metis has_parenthetical_sublist strip_sublist)

lemma dropWhile_idem: "dropWhile P (dropWhile P xs) = dropWhile P xs"
  by (induction xs) auto

lemma dropWhile_fixed: "t = [] \<or> \<not> P (hd t) \<Longrightarrow> dropWhile P t = t"
  by (cases t) auto

lemma hd_prefix: "u @ r = t \<Longrightarrow> u \<noteq> [] \<Longrightarrow> hd u = hd t"
  by (cases u) auto

lemma rstrip_prefix: "rev (dropWhile P (rev t)) @ rev (takeWhile P (rev t)) = t"
  by (metis rev_append rev_rev_ident takeWhile_dropWhile_id)

lemma strip_idem: "strip (strip s) = strip s"
proof -
  let ?t = "dropWhile is_space s"
  let ?u = "rev (dropWhile is_space (rev ?t))"
  have t: "?t = [] \<or> \<not> is_space (hd ?t)"
    by (metis hd_dropWhile)
  have "?u = [] \<or> \<not> is_space (hd ?u)"
  proof (cases "?u = []")
    case True
    then show ?thesis by blast
  next
    case False
    then have "hd ?u = hd ?t" using rstrip_prefix by (rule hd_prefix [rotated])
    moreover from False have "?t \<noteq> []"
      by (metis dropWhile.simps(1) rev.simps(1))
    ultimately show ?thesis using t by metis
  qed
  then have "dropWhile is_space ?u = ?u"
    by (rule dropWhile_fixed)
  then show ?thesis
    by (simp add: strip_def dropWhile_idem)
qed

lemma set_sub_scan_delete: "set (sub_scan ic re [] prev s) \<subseteq> set s"
proof (induction s arbitrary: prev rule: length_induct)
  case (1 s)
  show ?case
  proof (cases s)
    case Nil
    then show ?thesis by (simp split: option.splits prod.splits)
  next
    case (Cons x xs)
    have IH: "set (sub_scan ic re [] p t) \<subseteq> set t" if "length t < length s" for p t
      using 1 that by blast
    have a: "set (sub_scan ic re [] p xs) \<subseteq> set xs" for p
      using IH Cons by simp
    have "set (sub_scan ic re [] p (drop k xs)) \<subseteq> set (drop k xs)" for p k
      using IH Cons by simp
    then have b: "set (sub_scan ic re [] p (drop k xs)) \<subseteq> set xs" for p k
      using set_drop_subset by fastforce
    show ?thesis
    proof (cases "rmatch ic re prev (x # xs) 0 None")
      case None
      with Cons a show ?thesis by auto
    next
      case (Some m)
      obtain n g where m: "m = (n, g)" by (cases m)
      from Some m Cons a [of "Some x"] b [of "Some ((x # xs) ! (n - 1))" "n - 1"]
      show ?thesis by (auto split: if_splits)
    qed
  qed
qed

lemma sub_scan_no_parenthetical:
  "\<not> has_parenthetical (sub_scan False parenthetical [] prev s)"
proof (induction s arbitrary: prev rule: length_induct)
  case (1 s)
  show ?case
  proof (cases s)
    case Nil
    then show ?thesis
      by (simp add: has_parenthetical_def split: option.splits prod.splits)
  next
    case (Cons x xs)
    have IH: "\<not> has_parenthetical (sub_scan False parenthetical [] p t)"
      if "length t < length s" for p t
      using 1 that by blast
    show ?thesis
    proof (cases "rmatch False parenthetical prev (x # xs) 0 None")
      case None
      have "41 \<notin> set (sub_scan False parenthetical [] (Some x) xs)" if "x = 40"
      proof -
        from None that have "41 \<notin> set xs"
          using parenthetical_at_open by blast
        then show ?thesis using set_sub_scan_delete by blast
      qed
      moreover have "\<not> has_parenthetical (sub_scan False parenthetical [] (Some x) xs)"
        using IH Cons by simp
      ultimately show ?thesis
        using None Cons by (simp add: has_parenthetical_Cons)
    next
      case (Some m)
      obtain n g where m: "m = (n, g)" by (cases m)
      with Some have "0 < n" using parenthetical_nonempty by blast
      moreover have "\<not> has_parenthetical (sub_scan False parenthetical []
          (Some ((x # xs) ! (n - 1))) (drop (n - 1) xs))"
        using IH Cons by simp
      ultimately show ?thesis
        using Some m Cons by simp
    qed
  qed
qed

lemma get_company_name_normal:
  "strip (get_company_name w) = get_company_name w \<and> \<not> has_parenthetical (get_company_name w)"
  by (simp add: get_company_name_def Let_def strip_idem re_sub_def sub_scan_no_parenthetical
      strip_keeps_no_parenthetical)

lemma get_company_name_missing:
  "get_company_name (w\<lparr>w_name := None\<rparr>) = [] \<and> get_company_name (w\<lparr>w_name := Some []\<rparr>) = []"
  by (simp add: get_company_name_def get_or_def re_sub_def parenthetical_def strip_def
      first_some_None_iff)

lemma space_not_paren: "is_space c \<Longrightarrow> c \<noteq> 40 \<and> c \<noteq> 41"
  by (auto simp: is_space_def)

lemma drop_in_space_run:
  assumes "j < length (takeWhile is_space s)"
  shows "\<exists>x xs. drop j s = x # xs \<and> is_space x"
proof -
  from assms have l: "j < length s"
    by (meson length_takeWhile_le less_le_trans)
  from assms have "is_space (s ! j)"
    by (metis nth_mem set_takeWhileD takeWhile_nth)
  with l show ?thesis
    by (metis Cons_nth_drop_Suc)
qed

lemma paren_tail_match:
  "rmatch False [One (Lit 40), Star (NoneOf [41]), One (Lit 41)] p t n None =
     (case t of [] \<Rightarrow> None
      | x # xs \<Rightarrow> if x = 40 \<and> 41 \<in> set xs
          then Some (n + 1 + length (takeWhile (\<lambda>c. c \<noteq> 41) xs) + 1, None) else None)"
  by (simp only: open_paren_match body_match split: list.splits) simp

lemma takeWhile_open:
  "dropWhile is_space s = 40 # xs \<Longrightarrow>
   length (takeWhile (\<lambda>c. c \<noteq> 41) s) =
     length (takeWhile is_space s) + 1 + length (takeWhile (\<lambda>c. c \<noteq> 41) xs)"
proof -
  assume d: "dropWhile is_space s = 40 # xs"
  have "s = takeWhile is_space s @ 40 # xs"
    by (metis d takeWhile_dropWhile_id)
  moreover have "takeWhile (\<lambda>c. c \<noteq> 41) (takeWhile is_space s @ 40 # xs) =
      takeWhile is_space s @ takeWhile (\<lambda>c. c \<noteq> 41) (40 # xs)"
    by (rule takeWhile_append2) (metis set_takeWhileD space_not_paren)
  ultimately have "takeWhile (\<lambda>c. c \<noteq> 41) s =
      takeWhile is_space s @ 40 # takeWhile (\<lambda>c. c \<noteq> 41) xs"
    by simp
  then show ?thesis
    by (metis add.assoc length_Cons length_append plus_1_eq_Suc)
qed

lemma parenthetical_match:
  "rmatch False parenthetical prev s 0 None =
     (if annotation_starts s then Some (Suc (length (takeWhile (\<lambda>c. c \<noteq> 41) s)), None)
      else None)"
proof -
  let ?k = "length (takeWhile is_space s)"
  let ?F = "\<lambda>j. rmatch False [One (Lit 40), Star (NoneOf [41]), One (Lit 41)]
      (prev_after prev s j) (drop j s) (0 + j) None"
  have early: "?F j = None" if "j \<in> set (rev [0..<?k])" for j
  proof -
    from that have "j < ?k" by simp
    then obtain x xs where "drop j s = x # xs" and "is_space x"
      using drop_in_space_run by blast
    then show ?thesis
      using space_not_paren by (simp only: paren_tail_match list.case) simp
  qed
  then have rest: "first_some ?F (rev [0..<?k]) = None"
    by (simp only: first_some_None_iff) blast
  have "rmatch False parenthetical prev s 0 None = first_some ?F (rev [0..<Suc ?k])"
    unfolding parenthetical_def by (rule star_space_unfold)
  also have "\<dots> = ?F ?k"
    by (simp only: star_candidates first_some.simps rest split: option.split) simp
  also have "\<dots> = (if annotation_starts s
      then Some (Suc (length (takeWhile (\<lambda>c. c \<noteq> 41) s)), None) else None)"
  proof (cases "dropWhile is_space s")
    case Nil
    then show ?thesis
      by (simp only: paren_tail_match drop_takeWhile_length annotation_starts_def list.case)
        simp
  next
    case (Cons c r)
    show ?thesis
    proof (cases "c = 40")
      case True
      with Cons have "dropWhile is_space s = 40 # r" by simp
      then show ?thesis
        using takeWhile_open [of s r]
        by (simp only: paren_tail_match drop_takeWhile_length annotation_starts_def list.case)
          simp
    next
      case False
      with Cons show ?thesis
        by (simp only: paren_tail_match drop_takeWhile_length annotation_starts_def list.case)
          simp
    qed
  qed
  finally show ?thesis .
qed

lemma annotation_starts_head: "annotation_starts (x # xs) \<Longrightarrow> x \<noteq> 41"
  by (cases "is_space x") (auto simp: annotation_starts_def dest: space_not_paren)

lemma drop_annotations_inside:
  "drop_annotations True t =
     drop_annotations False (drop (Suc (length (takeWhile (\<lambda>c. c \<noteq> 41) t))) t)"
  by (induction t) auto

lemma sub_scan_drop_annotations:
  "sub_scan False parenthetical [] prev s = drop_annotations False s"
proof (induction s arbitrary: prev rule: length_induct)
  case (1 s)
  show ?case
  proof (cases s)
    case Nil
    then show ?thesis
      by (simp add: parenthetical_match split: option.splits prod.splits)
  next
    case (Cons x xs)
    have IH: "sub_scan False parenthetical [] p t = drop_annotations False t"
      if "length t < length s" for p t
      using 1 that by blast
    show ?thesis
    proof (cases "annotation_starts (x # xs)")
      case True
      then have x: "x \<noteq> 41" by (rule annotation_starts_head)
      have "sub_scan False parenthetical [] prev (x # xs) =
          sub_scan False parenthetical []
            (Some ((x # xs) ! Suc (length (takeWhile (\<lambda>c. c \<noteq> 41) xs))))
            (drop (Suc (length (takeWhile (\<lambda>c. c \<noteq> 41) xs))) xs)"
        using True x by (simp add: parenthetical_match del: rmatch.simps)
      also have "\<dots> = drop_annotations False
          (drop (Suc (length (takeWhile (\<lambda>c. c \<noteq> 41) xs))) xs)"
        using Cons by (intro IH) simp
      also have "\<dots> = drop_annotations True xs"
        by (rule drop_annotations_inside [symmetric])
      finally show ?thesis
        using True Cons by simp
    next
      case False
      have "sub_scan False parenthetical [] prev (x # xs) =
          x # sub_scan False parenthetical [] (Some x) xs"
        using False by (simp add: parenthetical_match del: rmatch.simps)
      also have "\<dots> = x # drop_annotations False xs"
        using Cons by (simp add: IH)
      finally show ?thesis
        using False Cons by simp
    qed
  qed
qed

lemma get_company_name_spec:
  "get_company_name w = spec_company_name (get_or (w_name w) [])"
  by (simp add: get_company_name_def spec_company_name_def re_sub_def sub_scan_drop_annotations)

lemma get_company_name_annotated: "get_company_name annotated_entry = str ''SFEIR''"
  by (simp add: get_company_name_def annotated_entry_def plain_entry_def get_or_def re_sub_def
      parenthetical_def strip_def str_def is_space_def prev_after_def group1_def)

lemma get_company_name_inner:
  "get_company_name inner_annotated_entry = str ''SFEIR Paris''"
  by (simp add: get_company_name_def inner_annotated_entry_def plain_entry_def get_or_def
      re_sub_def parenthetical_def strip_def str_def is_space_def prev_after_def group1_def)

lemma get_company_name_wide:
  "get_company_name wide_spaced_entry = str ''SFEIR''"
  by (simp add: get_company_name_def wide_spaced_entry_def plain_entry_def get_or_def
      re_sub_def parenthetical_def strip_def str_def is_space_def prev_after_def group1_def)

text \<open>
  Claim C6.  The groups are the normalized employer names in the order of their first
  occurrence, each with exactly the entries of that name in source order, so the group
  sizes add up to the number of entries.  The normalized name is the specification's: the
  employer name (the empty string when the key is absent) with every parenthetical
  annotation left out, every other character kept in place, and the whitespace at both
  ends trimmed.  Hence a normalized name is trimmed and holds no parenthetical annotation;
  an absent or empty employer name is normalized to the empty string, the key of its
  group.  On the example names: an annotation at the end and blanks around the name
  leave \<open>SFEIR\<close>, an annotation in the middle leaves \<open>SFEIR Paris\<close>, and the
  spaces U+3000 and U+202F around the name are trimmed.
\<close>

theorem grouping_by_company:
  "group_experiences_by_company ws =
     map (\<lambda>k. (k, filter (\<lambda>w. get_company_name w = k) ws))
       (first_occurrences (map get_company_name ws)) \<and>
   sum_list (map (\<lambda>(k, es). length es) (group_experiences_by_company ws)) = length ws \<and>
   get_company_name w = spec_company_name (get_or (w_name w) []) \<and>
   strip (get_company_name w) = get_company_name w \<and>
   \<not> has_parenthetical (get_company_name w) \<and>
   get_company_name (w\<lparr>w_name := None\<rparr>) = [] \<and>
   get_company_name (w\<lparr>w_name := Some []\<rparr>) = [] \<and>
   get_company_name annotated_entry = str ''SFEIR'' \<and>
   get_company_name inner_annotated_entry = str ''SFEIR Paris'' \<and>
   get_company_name wide_spaced_entry = str ''SFEIR''"
proof (intro conjI)
  show "group_experiences_by_company ws =
     map (\<lambda>k. (k, filter (\<lambda>w. get_company_name w = k) ws))
       (first_occurrences (map get_company_name ws))"
    unfolding group_experiences_by_company_def by (rule grouping_general)
  show "sum_list (map (\<lambda>(k, es). length es) (group_experiences_by_company ws)) = length ws"
    unfolding group_experiences_by_company_def by (simp add: grouping_sizes)
  show "get_company_name w = spec_company_name (get_or (w_name w) [])"
    by (rule get_company_name_spec)
  show "strip (get_company_name w) = get_company_name w"
    and "\<not> has_parenthetical (get_company_name w)"
    using get_company_name_normal by blast+
  show "get_company_name (w\<lparr>w_name := None\<rparr>) = []"
    and "get_company_name (w\<lparr>w_name := Some []\<rparr>) = []"
    using get_company_name_missing by blast+
  show "get_company_name annotated_entry = str ''SFEIR''"
    by (rule get_company_name_annotated)
  show "get_company_name inner_annotated_entry = str ''SFEIR Paris''"
    by (rule get_company_name_inner)
  show "get_company_name wide_spaced_entry = str ''SFEIR''"
    by (rule get_company_name_wide)
qed

section \<open>Properties of the summary cards\<close>

lemma py_min_Min: "xs \<noteq> [] \<Longrightarrow> py_min xs = Min (set xs)"
proof (cases xs)
  case Nil
  assume "xs \<noteq> []"
  with Nil show ?thesis by simp
next
  case (Cons x r)
  have "foldl min x r = fold min r x"
    by (simp add: foldl_conv_fold min.commute)
  also have "\<dots> = Min (set (x # r))"
    by (rule Min.set_eq_fold [symmetric])
  finally show ?thesis using Cons
    by (simp add: py_min_def)
qed

lemma py_max_Max: "xs \<noteq> [] \<Longrightarrow> py_max xs = Max (set xs)"
proof (cases xs)
  case Nil
  assume "xs \<noteq> []"
  with Nil show ?thesis by simp
next
  case (Cons x r)
  have "foldl max x r = fold max r x"
    by (simp add: foldl_conv_fold max.commute)
  also have "\<dots> = Max (set (x # r))"
    by (rule Max.set_eq_fold [symmetric])
  finally show ?thesis using Cons
    by (simp add: py_max_def)
qed

text \<open>
  The span of a summary card: the least of the non-empty start dates and the greatest of
  the non-empty end dates of the group; the end is empty, and shown as the "present"
  label, exactly when no entry has a non-empty end date.
\<close>

lemma earliest_latest_span:
  "dates_of w_startDate es \<noteq> [] \<Longrightarrow> earliest_start es = Min (set (dates_of w_startDate es))"
  "dates_of w_endDate es \<noteq> [] \<Longrightarrow> latest_end es = Max (set (dates_of w_endDate es))"
  by (simp_all add: earliest_start_def latest_end_def py_min_Min py_max_Max Let_def)

lemma empty_not_in_dates_of: "[] \<notin> set (dates_of key es)"
  by (auto simp: dates_of_def split: option.splits if_splits)

lemma latest_end_empty_iff: "latest_end es = [] \<longleftrightarrow> dates_of w_endDate es = []"
proof
  assume e: "latest_end es = []"
  show "dates_of w_endDate es = []"
  proof (rule ccontr)
    assume n: "dates_of w_endDate es \<noteq> []"
    then have "latest_end es \<in> set (dates_of w_endDate es)"
      by (simp add: earliest_latest_span Max_in)
    with e show False using empty_not_in_dates_of by metis
  qed
next
  assume "dates_of w_endDate es = []"
  then show "latest_end es = []" by (simp add: latest_end_def)
qed

text \<open>
  Claim C7.  The claim asks for the "present" label at the end of a company's span as
  soon as one entry of the group is open-ended.  \<open>render_page_1\<close> takes the latest of
  the non-empty end dates and falls back to the label only when there is none: for a
  closed engagement (until January 2020) followed by an open-ended one, the summary card
  shows a span ending in January 2020, while the detail block of the open-ended entry
  shows the label.
\<close>

theorem summary_span_ignores_ongoing_entry:
  "latest_end [closed_entry, ongoing_entry] = str ''2020-01'' \<and>
   company_sum_period [closed_entry, ongoing_entry] Fr =
     str ''Jan 2019 '' @ [8211] @ str '' Jan 2020'' \<and>
   format_date (get_nullable (w_endDate ongoing_entry)) Fr = lbl_present (LABELS Fr)"
  by (simp add: company_sum_period_def latest_end_def earliest_start_def dates_of_def
      closed_entry_def ongoing_entry_def get_nullable_def py_max_def py_min_def format_date_def
      date_eval LABELS_def str_of_int_def Let_def)

section \<open>Evaluation of the character classes and of the matcher\<close>

text \<open>
  Decision chains for the character classes, and congruence rules that keep the
  simplifier from walking through a pattern at every step of a scan.
\<close>

lemma is_word_eval:
  "is_word c = (if c < 48 then False else if c \<le> 57 then True else if c < 65 then False
     else if c \<le> 90 then True else if c < 95 then False else if c = 95 then True
     else if c < 97 then False else if c \<le> 122 then True else if c < 170 then False
     else if c = 170 then True else if c < 178 then False else if c \<le> 179 then True
     else if c = 181 then True else if c < 185 then False else if c \<le> 186 then True
     else if c < 188 then False else if c \<le> 190 then True else if c < 192 then False
     else if c \<le> 214 then True else if c = 215 then False else if c \<le> 246 then True
     else if c = 247 then False else c \<le> 255)"
  unfolding is_word_def by auto

lemma is_space_eval:
  "is_space c = (if c < 9 then False else if c \<le> 13 then True else if c < 28 then False
     else if c \<le> 32 then True else if c = 133 then True else if c = 160 then True
     else if c < 5760 then False else if c = 5760 then True else if c < 8192 then False
     else if c \<le> 8202 then True else if c = 8232 then True else if c = 8233 then True
     else if c = 8239 then True else if c = 8287 then True else c = 12288)"
  unfolding is_space_def by auto

lemma lower_eval:
  "lower c = (if c < 65 then c else if c \<le> 90 then c + 32 else if c < 192 then c
     else if c \<le> 214 then c + 32 else if c < 216 then c else if c \<le> 222 then c + 32 else c)"
  unfolding lower_def by simp

lemma at_boundary_eval:
  "at_boundary prev s =
     (if (case prev of None \<Rightarrow> False | Some p \<Rightarrow> is_word p)
      then (case s of [] \<Rightarrow> True | x # _ \<Rightarrow> \<not> is_word x)
      else (case s of [] \<Rightarrow> False | x # _ \<Rightarrow> is_word x))"
  unfolding at_boundary_def by (simp split: list.splits option.splits)

lemma sub_scan_cong:
  "prev = prev' \<Longrightarrow> s = s' \<Longrightarrow> sub_scan ic re repl prev s = sub_scan ic re repl prev' s'"
  by simp

lemma rmatch_cong:
  "prev = prev' \<Longrightarrow> s = s' \<Longrightarrow> n = n' \<Longrightarrow> g = g' \<Longrightarrow>
   rmatch ic re prev s n g = rmatch ic re prev' s' n' g'"
  by simp

lemmas re_eval = re_sub_def str_def lits_def is_word_eval at_boundary_eval lower_eval
  is_space_eval prev_after_def group1_def

lemmas anonymize_eval = anonymize_text_def ANONYMIZATION_RULES_def re_eval

section \<open>Properties of the anonymizer\<close>

lemma set_fixed_replacements:
  "set fixed_replacements =
     {str ''Client Transports'', str ''Client Distribution'', str ''Client Luxe'',
      str ''Client Banque'', str ''Client Assurances''}"
  by (simp add: fixed_replacements_def ANONYMIZATION_RULES_def) blast

lemma anonymize_groupe_groupe:
  "anonymize_text (str ''Groupe Groupe X'') = str ''Client Groupe X''"
  by (simp add: anonymize_eval cong: sub_scan_cong rmatch_cong)

lemma anonymize_client_groupe:
  "anonymize_text (str ''Client Groupe X'') = str ''Client Client X''"
  by (simp add: anonymize_eval cong: sub_scan_cong rmatch_cong)

text \<open>
  Claim C5.  As stated for every text, the claim fails: of \<open>Groupe Groupe X\<close> the first
  pass rewrites the first two words to \<open>Client Groupe\<close> and goes on behind them, and a
  second pass rewrites the \<open>Groupe X\<close> that the first one left.
\<close>

theorem anonymize_text_not_idempotent:
  "anonymize_text (anonymize_text (str ''Groupe Groupe X'')) \<noteq>
     anonymize_text (str ''Groupe Groupe X'')"
  unfolding anonymize_groupe_groupe anonymize_client_groupe by (simp add: str_def)


lemma fixed_transports: "anonymize_text (str ''Client Transports'') = str ''Client Transports''"
  by (simp add: anonymize_eval cong: sub_scan_cong rmatch_cong)

lemma fixed_distribution: "anonymize_text (str ''Client Distribution'') = str ''Client Distribution''"
  by (simp add: anonymize_eval cong: sub_scan_cong rmatch_cong)

lemma fixed_luxe: "anonymize_text (str ''Client Luxe'') = str ''Client Luxe''"
  by (simp add: anonymize_eval cong: sub_scan_cong rmatch_cong)

lemma fixed_banque: "anonymize_text (str ''Client Banque'') = str ''Client Banque''"
  by (simp add: anonymize_eval cong: sub_scan_cong rmatch_cong)

lemma fixed_assurances: "anonymize_text (str ''Client Assurances'') = str ''Client Assurances''"
  by (simp add: anonymize_eval cong: sub_scan_cong rmatch_cong)

text \<open>
  Claim C5, amended.  Every replacement text of the rules that holds no group reference
  is left unchanged by \<open>anonymize_text\<close>: on these rule-generated strings a second
  pass changes nothing.
\<close>

theorem replacements_are_fixed_points:
  "\<forall>r \<in> set fixed_replacements. anonymize_text r = r"
  unfolding set_fixed_replacements using fixed_transports fixed_distribution fixed_luxe fixed_banque fixed_assurances by blast

theorem replacements_are_fixed_points_witness:
  "str ''Client Luxe'' \<in> set fixed_replacements \<and>
   anonymize_text (anonymize_text (str ''Client Luxe'')) = anonymize_text (str ''Client Luxe'')"
proof -
  have m: "str ''Client Luxe'' \<in> set fixed_replacements"
    unfolding set_fixed_replacements by blast
  with replacements_are_fixed_points have "anonymize_text (str ''Client Luxe'') = str ''Client Luxe''"
    by blast
  with m show ?thesis by simp
qed

section \<open>Exceptions of the document generation\<close>

lemma getitem_Inr_iff: "getitem f = Inr v \<longleftrightarrow> f = Some v"
  by (cases f) (simp_all add: getitem_def)

lemma getitem_Inl_iff: "getitem f = Inl e \<longleftrightarrow> f = None \<and> e = KeyError"
  by (cases f) (auto simp: getitem_def)

lemma map_raise_Inl:
  "map_raise f xs = Inl e \<Longrightarrow> \<exists>x \<in> set xs. f x = Inl e"
  by (induction xs) (auto simp: bind_Inl_iff)

lemma map_raise_Inr_all:
  "map_raise f xs = Inr ys \<Longrightarrow> \<forall>x \<in> set xs. \<exists>y. f x = Inr y"
  by (induction xs arbitrary: ys) (auto simp: bind_Inr_iff)

lemma map_raise_total:
  "\<forall>x \<in> set xs. \<exists>y. f x = Inr y \<Longrightarrow> \<exists>ys. map_raise f xs = Inr ys"
  by (induction xs) (auto simp: bind_Inr_iff)

lemma calculate_duration_Inl_iff:
  "calculate_duration now start finish lang = Inl e \<longleftrightarrow>
     e = AttributeError \<and> parse_date start \<noteq> None \<and> \<not> falsy finish \<and> parse_date finish = None"
  by (auto simp: calculate_duration_def Let_def split: option.splits prod.splits)

lemma render_experience_Inr:
  "render_experience now company color anonymize lang w = Inr h \<Longrightarrow> has_required_keys w"
  by (auto simp: render_experience_def has_required_keys_def bind_Inr_iff getitem_Inr_iff Let_def)

lemma render_experience_Inl:
  "render_experience now company color anonymize lang w = Inl e \<Longrightarrow>
     e = KeyError \<or> \<not> end_readable w"
  by (auto simp: render_experience_def end_readable_def bind_Inl_iff getitem_Inr_iff
      getitem_Inl_iff calculate_duration_Inl_iff get_nullable_def Let_def)

lemma render_experience_returns:
  "has_required_keys w \<Longrightarrow> end_readable w \<Longrightarrow>
   \<exists>h. render_experience now company color anonymize lang w = Inr h"
proof -
  assume k: "has_required_keys w" and r: "end_readable w"
  from k obtain n p s e where f: "w_name w = Some n" "w_position w = Some p"
      "w_startDate w = Some s" "w_endDate w = Some e"
    by (auto simp: has_required_keys_def)
  with r have "\<not> (\<exists>err. calculate_duration now s e lang = Inl err)"
    by (auto simp: calculate_duration_Inl_iff end_readable_def get_nullable_def)
  then obtain d where "calculate_duration now s e lang = Inr d"
    by (cases "calculate_duration now s e lang") auto
  with f show ?thesis
    by (simp add: render_experience_def getitem_def Let_def)
qed


lemma render_experience_group_Inr:
  "render_experience_group now company es color anonymize lang = Inr h \<Longrightarrow>
     \<forall>w \<in> set es. has_required_keys w"
  by (auto simp: render_experience_group_def bind_Inr_iff
      dest!: map_raise_Inr_all dest: render_experience_Inr)

lemma render_experience_group_Inl:
  "render_experience_group now company es color anonymize lang = Inl e \<Longrightarrow>
     e = KeyError \<or> (\<exists>w \<in> set es. \<not> end_readable w)"
  by (auto simp: render_experience_group_def bind_Inl_iff
      dest!: map_raise_Inl dest: render_experience_Inl)

lemma render_experience_group_returns:
  "\<forall>w \<in> set es. has_required_keys w \<and> end_readable w \<Longrightarrow>
   \<exists>h. render_experience_group now company es color anonymize lang = Inr h"
proof -
  assume "\<forall>w \<in> set es. has_required_keys w \<and> end_readable w"
  then have "\<forall>w \<in> set es. \<exists>h. render_experience now company color anonymize lang w = Inr h"
    using render_experience_returns by blast
  then obtain hs where "map_raise (render_experience now company color anonymize lang) es = Inr hs"
    using map_raise_total by blast
  then show ?thesis by (simp add: render_experience_group_def)
qed

lemma exp_group_entry_Inr:
  "exp_group_entry now anonymize lang g = Inr y \<Longrightarrow> \<forall>w \<in> set (snd g). has_required_keys w"
  by (cases g) (auto simp: exp_group_entry_def bind_Inr_iff Let_def dest!: render_experience_group_Inr)

lemma exp_group_entry_Inl:
  "exp_group_entry now anonymize lang g = Inl e \<Longrightarrow>
     e = KeyError \<or> (\<exists>w \<in> set (snd g). \<not> end_readable w)"
  by (cases g) (auto simp: exp_group_entry_def bind_Inl_iff Let_def dest!: render_experience_group_Inl)

lemma exp_group_entry_returns:
  "\<forall>w \<in> set (snd g). has_required_keys w \<and> end_readable w \<Longrightarrow>
   \<exists>y. exp_group_entry now anonymize lang g = Inr y"
proof -
  assume "\<forall>w \<in> set (snd g). has_required_keys w \<and> end_readable w"
  then obtain h where "render_experience_group now (fst g) (snd g) (get_company_color (fst g))
      anonymize lang = Inr h"
    using render_experience_group_returns by blast
  then show ?thesis
    by (cases g) (simp add: exp_group_entry_def Let_def)
qed

lemma split_Inr:
  "split_experiences_into_pages now grouped anonymize lang = Inr pgs \<Longrightarrow>
     \<forall>g \<in> set grouped. \<forall>w \<in> set (snd g). has_required_keys w"
proof -
  assume "split_experiences_into_pages now grouped anonymize lang = Inr pgs"
  then obtain gs where "all_exp_groups now grouped anonymize lang = Inr gs"
    by (auto simp: split_experiences_into_pages_def bind_Inr_iff)
  then have "\<forall>g \<in> set grouped. \<exists>y. exp_group_entry now anonymize lang g = Inr y"
    unfolding all_exp_groups_def by (rule map_raise_Inr_all)
  then show ?thesis
    using exp_group_entry_Inr by blast
qed

lemma split_Inl:
  "split_experiences_into_pages now grouped anonymize lang = Inl e \<Longrightarrow>
     e = KeyError \<or> (\<exists>g \<in> set grouped. \<exists>w \<in> set (snd g). \<not> end_readable w)"
proof -
  assume "split_experiences_into_pages now grouped anonymize lang = Inl e"
  then have "all_exp_groups now grouped anonymize lang = Inl e"
    by (auto simp: split_experiences_into_pages_def bind_Inl_iff)
  then obtain g where "g \<in> set grouped" and "exp_group_entry now anonymize lang g = Inl e"
    unfolding all_exp_groups_def by (blast dest: map_raise_Inl)
  then show ?thesis
    using exp_group_entry_Inl by blast
qed

lemma split_returns:
  "\<forall>g \<in> set grouped. \<forall>w \<in> set (snd g). has_required_keys w \<and> end_readable w \<Longrightarrow>
   \<exists>pgs. split_experiences_into_pages now grouped anonymize lang = Inr pgs"
proof -
  assume "\<forall>g \<in> set grouped. \<forall>w \<in> set (snd g). has_required_keys w \<and> end_readable w"
  then have "\<forall>g \<in> set grouped. \<exists>y. exp_group_entry now anonymize lang g = Inr y"
    using exp_group_entry_returns by blast
  then obtain gs where "all_exp_groups now grouped anonymize lang = Inr gs"
    unfolding all_exp_groups_def using map_raise_total by blast
  then show ?thesis by (simp add: split_experiences_into_pages_def)
qed

lemma grouped_entries:
  "(\<exists>g \<in> set (group_experiences_by_company ws). w \<in> set (snd g)) \<longleftrightarrow> w \<in> set ws"
  unfolding group_experiences_by_company_def grouping_general
  by (auto simp: set_first_occurrences)


lemma map_raise_KeyError:
  "(\<And>x e. f x = Inl e \<Longrightarrow> e = KeyError) \<Longrightarrow> map_raise f xs = Inl e \<Longrightarrow> e = KeyError"
  by (blast dest: map_raise_Inl)

lemma sidebar_of_Inl: "sidebar_of r anonymize lang = Inl e \<Longrightarrow> e = KeyError"
  unfolding sidebar_of_def render_sidebar_def skills_section_def certs_section_def
    langs_section_def interests_section_def Let_def
  by (auto simp: bind_Inl_iff skill_html_def cert_html_def lang_html_def interest_html_def
      getitem_Inl_iff Let_def split: if_splits dest!: map_raise_Inl)

lemma dates_of_member:
  "d \<in> set (dates_of key es) \<Longrightarrow> \<exists>w \<in> set es. get_nullable (key w) = Some d \<and> d \<noteq> []"
  by (auto simp: dates_of_def split: option.splits if_splits)

lemma latest_end_member:
  "latest_end es \<noteq> [] \<Longrightarrow> \<exists>w \<in> set es. get_nullable (w_endDate w) = Some (latest_end es)"
proof -
  assume n: "latest_end es \<noteq> []"
  then have "dates_of w_endDate es \<noteq> []"
    by (auto simp: latest_end_def)
  then have "latest_end es \<in> set (dates_of w_endDate es)"
    by (simp add: earliest_latest_span)
  then show ?thesis by (blast dest: dates_of_member)
qed

lemma company_summary_Inl:
  "company_summary now anonymize lang g = Inl e \<Longrightarrow>
     e = KeyError \<or> (\<exists>w \<in> set (snd g). \<not> end_readable w)"
proof -
  obtain company es where g: "g = (company, es)" by (cases g)
  assume "company_summary now anonymize lang g = Inl e"
  then consider "roles_of es = Inl e"
    | "calculate_duration now (Some (earliest_start es)) (Some (latest_end es)) lang = Inl e"
    by (auto simp: company_summary_def g bind_Inl_iff Let_def)
  then show ?thesis
  proof cases
    case 1
    then have "e = KeyError"
      by (auto simp: roles_of_def bind_Inl_iff getitem_Inl_iff dest!: map_raise_Inl)
    then show ?thesis by blast
  next
    case 2
    then have m: "latest_end es \<noteq> []" and p: "parse_date (Some (latest_end es)) = None"
      by (auto simp: calculate_duration_Inl_iff falsy_def)
    from m obtain w where "w \<in> set es" and "get_nullable (w_endDate w) = Some (latest_end es)"
      by (blast dest: latest_end_member)
    with m p have "w \<in> set (snd g)" and "\<not> end_readable w"
      by (auto simp: g end_readable_def falsy_def)
    then show ?thesis by blast
  qed
qed

lemma render_page_1_Inl:
  "render_page_1 now r anonymize lang = Inl e \<Longrightarrow>
     e = KeyError \<or> (\<exists>w \<in> set (get_or (r_work r) []). \<not> end_readable w)"
proof -
  assume "render_page_1 now r anonymize lang = Inl e"
  then consider "sidebar_of r anonymize lang = Inl e"
    | "map_raise (company_summary now anonymize lang)
         (group_experiences_by_company (get_or (r_work r) [])) = Inl e"
    by (auto simp: render_page_1_def bind_Inl_iff Let_def)
  then show ?thesis
  proof cases
    case 1
    then show ?thesis by (blast dest: sidebar_of_Inl)
  next
    case 2
    then obtain g where "g \<in> set (group_experiences_by_company (get_or (r_work r) []))"
      and "company_summary now anonymize lang g = Inl e"
      by (blast dest: map_raise_Inl)
    then show ?thesis
      using company_summary_Inl grouped_entries by blast
  qed
qed

lemma render_detail_pages_Inl:
  "render_detail_pages now r anonymize lang = Inl e \<Longrightarrow>
     e = KeyError \<or> (\<exists>w \<in> set (get_or (r_work r) []). \<not> end_readable w)"
proof -
  assume "render_detail_pages now r anonymize lang = Inl e"
  then consider "sidebar_of r anonymize lang = Inl e"
    | "split_experiences_into_pages now (group_experiences_by_company (get_or (r_work r) []))
         anonymize lang = Inl e"
    by (auto simp: render_detail_pages_def bind_Inl_iff Let_def)
  then show ?thesis
  proof cases
    case 1
    then show ?thesis by (blast dest: sidebar_of_Inl)
  next
    case 2
    then show ?thesis
      using split_Inl grouped_entries by blast
  qed
qed

lemma render_detail_pages_Inr:
  "render_detail_pages now r anonymize lang = Inr h \<Longrightarrow>
     \<forall>w \<in> set (get_or (r_work r) []). has_required_keys w"
proof -
  assume "render_detail_pages now r anonymize lang = Inr h"
  then obtain pgs where "split_experiences_into_pages now
      (group_experiences_by_company (get_or (r_work r) [])) anonymize lang = Inr pgs"
    by (auto simp: render_detail_pages_def bind_Inr_iff Let_def)
  then show ?thesis
    using split_Inr grouped_entries by blast
qed


lemma anonymize_entry_Inr:
  "anonymize_entry w = Inr w' \<Longrightarrow>
     w_name w \<noteq> None \<and> w_position w \<noteq> None \<and> w_startDate w' = w_startDate w \<and>
     w_endDate w' = w_endDate w"
  by (auto simp: anonymize_entry_def bind_Inr_iff getitem_Inr_iff)

lemma anonymize_entry_Inl: "anonymize_entry w = Inl e \<Longrightarrow> e = KeyError"
  by (auto simp: anonymize_entry_def bind_Inl_iff getitem_Inl_iff)

lemma anonymize_work_Inl: "anonymize_work r = Inl e \<Longrightarrow> e = KeyError"
  by (auto simp: anonymize_work_def bind_Inl_iff split: option.splits
      dest!: map_raise_Inl anonymize_entry_Inl)

lemma anonymize_work_Inr:
  assumes "anonymize_work r = Inr r'"
  shows "list_all2 (\<lambda>w w'. anonymize_entry w = Inr w') (get_or (r_work r) []) (get_or (r_work r') [])"
proof (cases "r_work r")
  case None
  with assms show ?thesis by (auto simp: anonymize_work_def get_or_def)
next
  case (Some work)
  with assms obtain work' where "map_raise anonymize_entry work = Inr work'"
    and "r' = r\<lparr>r_work := Some work'\<rparr>"
    by (auto simp: anonymize_work_def bind_Inr_iff)
  with Some show ?thesis
    by (simp add: get_or_def map_raise_Inr_iff)
qed

lemma list_all2_left: "list_all2 P xs ys \<Longrightarrow> x \<in> set xs \<Longrightarrow> \<exists>y \<in> set ys. P x y"
  by (induction rule: list_all2_induct) auto

lemma list_all2_right: "list_all2 P xs ys \<Longrightarrow> y \<in> set ys \<Longrightarrow> \<exists>x \<in> set xs. P x y"
  by (induction rule: list_all2_induct) auto

text \<open>The entries after the anonymization pass, seen from the entries before it.\<close>

lemma anonymized_keys:
  assumes "list_all2 (\<lambda>w w'. anonymize_entry w = Inr w') ws ws'"
    and "\<forall>w' \<in> set ws'. has_required_keys w'"
  shows "\<forall>w \<in> set ws. has_required_keys w"
proof
  fix w assume "w \<in> set ws"
  with assms(1) obtain w' where "w' \<in> set ws'" and a: "anonymize_entry w = Inr w'"
    by (blast dest: list_all2_left)
  with assms(2) have "has_required_keys w'" by blast
  with anonymize_entry_Inr [OF a] show "has_required_keys w"
    by (simp add: has_required_keys_def)
qed

lemma anonymized_ends:
  assumes "list_all2 (\<lambda>w w'. anonymize_entry w = Inr w') ws ws'"
    and "\<forall>w \<in> set ws. end_readable w"
  shows "\<forall>w' \<in> set ws'. end_readable w'"
proof
  fix w' assume "w' \<in> set ws'"
  with assms(1) obtain w where "w \<in> set ws" and a: "anonymize_entry w = Inr w'"
    by (blast dest: list_all2_right)
  with assms(2) have "end_readable w" by blast
  with anonymize_entry_Inr [OF a] show "end_readable w'"
    by (simp add: end_readable_def)
qed

lemma generate_html_Inr:
  assumes "generate_html tpl now r anonymize lang = Inr html"
  shows "\<forall>w \<in> set (get_or (r_work r) []). has_required_keys w"
proof -
  from assms obtain r' h where
    a: "(if anonymize then anonymize_work r else Inr r) = Inr r'"
    and d: "render_detail_pages now r' anonymize lang = Inr h"
    by (auto simp: generate_html_def bind_Inr_iff Let_def)
  from d have k: "\<forall>w \<in> set (get_or (r_work r') []). has_required_keys w"
    by (rule render_detail_pages_Inr)
  show ?thesis
  proof (cases anonymize)
    case True
    with a have "anonymize_work r = Inr r'" by simp
    then have "list_all2 (\<lambda>w w'. anonymize_entry w = Inr w') (get_or (r_work r) [])
        (get_or (r_work r') [])"
      by (rule anonymize_work_Inr)
    then show ?thesis using k by (rule anonymized_keys)
  next
    case False
    with a k show ?thesis by simp
  qed
qed

lemma generate_html_Inl:
  assumes "generate_html tpl now r anonymize lang = Inl e"
    and "\<forall>w \<in> set (get_or (r_work r) []). end_readable w"
  shows "e = KeyError"
proof -
  from assms(1) consider
      "(if anonymize then anonymize_work r else Inr r) = Inl e"
    | r' where "(if anonymize then anonymize_work r else Inr r) = Inr r'"
        and "render_page_1 now r' anonymize lang = Inl e \<or>
             render_detail_pages now r' anonymize lang = Inl e"
    by (auto simp: generate_html_def bind_Inl_iff Let_def)
  then show ?thesis
  proof cases
    case 1
    then show ?thesis by (auto split: if_splits dest: anonymize_work_Inl)
  next
    case 2
    have "\<forall>w \<in> set (get_or (r_work r') []). end_readable w"
    proof (cases anonymize)
      case True
      with 2(1) have "anonymize_work r = Inr r'" by simp
      then have "list_all2 (\<lambda>w w'. anonymize_entry w = Inr w') (get_or (r_work r) [])
          (get_or (r_work r') [])"
        by (rule anonymize_work_Inr)
      then show ?thesis using assms(2) by (rule anonymized_ends)
    next
      case False
      with 2(1) assms(2) show ?thesis by simp
    qed
    with 2(2) show ?thesis
      using render_page_1_Inl render_detail_pages_Inl by blast
  qed
qed

lemma missing_key_raises_KeyError:
  assumes "\<exists>w \<in> set (get_or (r_work r) []). \<not> has_required_keys w"
    and "\<forall>w \<in> set (get_or (r_work r) []). end_readable w"
  shows "generate_html tpl now r anonymize lang = Inl KeyError"
proof (cases "generate_html tpl now r anonymize lang")
  case (Inl e)
  from Inl assms(2) have "e = KeyError" by (rule generate_html_Inl)
  with Inl show ?thesis by simp
next
  case (Inr html)
  then have "\<forall>w \<in> set (get_or (r_work r) []). has_required_keys w"
    by (rule generate_html_Inr)
  with assms(1) show ?thesis by blast
qed

lemma company_summary_returns:
  assumes "\<forall>w \<in> set (snd g). has_required_keys w \<and> end_readable w"
  shows "\<exists>h. company_summary now anonymize lang g = Inr h"
proof -
  obtain company es where g: "g = (company, es)" by (cases g)
  from assms have "\<forall>w \<in> set es. \<exists>y. bind (getitem (w_position w))
      (\<lambda>position. Inr (strip (split_first position 40))) = Inr y"
    by (auto simp: g has_required_keys_def getitem_def)
  then have "\<exists>roles. roles_of es = Inr roles"
    unfolding roles_of_def by (rule map_raise_total)
  then obtain roles where r: "roles_of es = Inr roles" ..
  have "\<not> (\<exists>e. calculate_duration now (Some (earliest_start es)) (Some (latest_end es)) lang = Inl e)"
  proof
    assume "\<exists>e. calculate_duration now (Some (earliest_start es)) (Some (latest_end es)) lang = Inl e"
    then have m: "latest_end es \<noteq> []" and p: "parse_date (Some (latest_end es)) = None"
      by (auto simp: calculate_duration_Inl_iff falsy_def)
    from m obtain w where "w \<in> set es" and "get_nullable (w_endDate w) = Some (latest_end es)"
      by (blast dest: latest_end_member)
    with m p assms show False
      by (auto simp: g end_readable_def falsy_def)
  qed
  then obtain d where "calculate_duration now (Some (earliest_start es)) (Some (latest_end es)) lang = Inr d"
    by (cases "calculate_duration now (Some (earliest_start es)) (Some (latest_end es)) lang") auto
  with r show ?thesis
    by (simp add: company_summary_def g Let_def)
qed

lemma render_pages_return:
  assumes "\<forall>w \<in> set (get_or (r_work r) []). has_required_keys w \<and> end_readable w"
    and "sidebar_of r anonymize lang = Inr s"
  shows "\<exists>p d. render_page_1 now r anonymize lang = Inr p \<and>
               render_detail_pages now r anonymize lang = Inr d"
proof -
  let ?grouped = "group_experiences_by_company (get_or (r_work r) [])"
  from assms(1) have a: "\<forall>g \<in> set ?grouped. \<forall>w \<in> set (snd g). has_required_keys w \<and> end_readable w"
    using grouped_entries by blast
  then have "\<forall>g \<in> set ?grouped. \<exists>h. company_summary now anonymize lang g = Inr h"
    using company_summary_returns by blast
  then have "\<exists>hs. map_raise (company_summary now anonymize lang) ?grouped = Inr hs"
    by (rule map_raise_total)
  then obtain hs where "map_raise (company_summary now anonymize lang) ?grouped = Inr hs" ..
  moreover from a obtain pgs where "split_experiences_into_pages now ?grouped anonymize lang = Inr pgs"
    using split_returns by blast
  ultimately show ?thesis
    using assms(2) by (simp add: render_page_1_def render_detail_pages_def Let_def)
qed

lemma anonymize_entry_returns:
  "has_required_keys w \<Longrightarrow> \<exists>w'. anonymize_entry w = Inr w' \<and> has_required_keys w' \<and>
     w_endDate w' = w_endDate w"
  by (auto simp: anonymize_entry_def has_required_keys_def getitem_def)

lemma anonymize_work_returns:
  assumes "\<forall>w \<in> set (get_or (r_work r) []). has_required_keys w \<and> end_readable w"
  shows "\<exists>r'. anonymize_work r = Inr r' \<and> sidebar_of r' = sidebar_of r \<and>
     (\<forall>w \<in> set (get_or (r_work r') []). has_required_keys w \<and> end_readable w)"
proof (cases "r_work r")
  case None
  with assms show ?thesis by (simp add: anonymize_work_def)
next
  case (Some work)
  with assms have k: "\<forall>w \<in> set work. has_required_keys w \<and> end_readable w"
    by (simp add: get_or_def)
  then have "\<forall>w \<in> set work. \<exists>w'. anonymize_entry w = Inr w'"
    using anonymize_entry_returns by blast
  then have "\<exists>work'. map_raise anonymize_entry work = Inr work'"
    by (rule map_raise_total)
  then obtain work' where w: "map_raise anonymize_entry work = Inr work'" ..
  then have l: "list_all2 (\<lambda>w w'. anonymize_entry w = Inr w') work work'"
    by (simp add: map_raise_Inr_iff)
  have "has_required_keys w' \<and> end_readable w'" if "w' \<in> set work'" for w'
  proof -
    from l that obtain w0 where "w0 \<in> set work" and a: "anonymize_entry w0 = Inr w'"
      by (blast dest: list_all2_right)
    with k have "has_required_keys w0" and "end_readable w0" by blast+
    with a anonymize_entry_returns [of w0] show ?thesis
      by (auto simp: end_readable_def)
  qed
  with Some w show ?thesis
    by (auto simp: anonymize_work_def get_or_def sidebar_of_def fun_eq_iff)
qed

lemma generate_html_returns:
  assumes "\<forall>w \<in> set (get_or (r_work r) []). has_required_keys w \<and> end_readable w"
    and "sidebar_of r anonymize lang = Inr s"
  shows "\<exists>html. generate_html tpl now r anonymize lang = Inr html"
proof -
  have "\<exists>r'. (if anonymize then anonymize_work r else Inr r) = Inr r' \<and>
      sidebar_of r' = sidebar_of r \<and>
      (\<forall>w \<in> set (get_or (r_work r') []). has_required_keys w \<and> end_readable w)"
  proof (cases anonymize)
    case True
    with anonymize_work_returns [OF assms(1)] show ?thesis by simp
  next
    case False
    with assms(1) show ?thesis by simp
  qed
  then obtain r' where a: "(if anonymize then anonymize_work r else Inr r) = Inr r'"
    and sb: "sidebar_of r' = sidebar_of r"
    and k: "\<forall>w \<in> set (get_or (r_work r') []). has_required_keys w \<and> end_readable w"
    by blast
  from sb assms(2) have "sidebar_of r' anonymize lang = Inr s" by simp
  with k obtain p d where "render_page_1 now r' anonymize lang = Inr p"
    and "render_detail_pages now r' anonymize lang = Inr d"
    using render_pages_return by blast
  with a show ?thesis
    by (simp add: generate_html_def Let_def)
qed

lemma sidebar_of_work_only: "\<exists>s. sidebar_of (work_only ws) anonymize lang = Inr s"
  by (simp add: sidebar_of_def work_only_def get_or_def render_sidebar_def skills_section_def
      certs_section_def langs_section_def interests_section_def Let_def)

lemma nameless_summary:
  "company_summary now False lang ([], [nameless_entry]) = Inl AttributeError"
  by (simp add: company_summary_def roles_of_def nameless_entry_def getitem_def earliest_start_def
      latest_end_def dates_of_def get_nullable_def py_min_def py_max_def Let_def
      calculate_duration_def date_eval)

lemma nameless_generate:
  "generate_html tpl now (work_only [nameless_entry]) False lang = Inl AttributeError"
proof -
  obtain s where s: "sidebar_of (work_only [nameless_entry]) False lang = Inr s"
    using sidebar_of_work_only by blast
  have g: "group_experiences_by_company [nameless_entry] = [([], [nameless_entry])]"
    using get_company_name_missing [of nameless_entry]
    by (simp add: group_experiences_by_company_def nameless_entry_def)
  have "render_page_1 now (work_only [nameless_entry]) False lang = Inl AttributeError"
    unfolding render_page_1_def Let_def s bind_Inr
    by (simp add: work_only_def get_or_def g nameless_summary)
  then show ?thesis
    by (simp add: generate_html_def)
qed

text \<open>
  Claim C10.  A work entry without one of the keys \<open>name\<close>, \<open>position\<close>,
  \<open>startDate\<close>, \<open>endDate\<close> never yields a document: \<open>generate_html\<close> returns only
  when every entry has the four keys, and the exception is \<open>KeyError\<close> whenever every
  end date is empty, null or parseable.  A missing \<open>summary\<close> or \<open>highlights\<close> does not
  matter: with the four keys, readable end dates and a sidebar that renders, the document
  is produced.  The exception is not always \<open>KeyError\<close>: for an entry without \<open>name\<close>
  whose end date is the malformed \<open>"2021"\<close>, the summary page computes the duration first
  and \<open>calculate_duration\<close> raises \<open>AttributeError\<close>.
\<close>

theorem missing_key_raises:
  "generate_html tpl now (work_only [nameless_entry]) False lang = Inl AttributeError \<and>
   ((\<exists>w \<in> set (get_or (r_work r) []). \<not> has_required_keys w) \<and>
    (\<forall>w \<in> set (get_or (r_work r) []). end_readable w) \<longrightarrow>
      generate_html tpl now r anonymize lang = Inl KeyError) \<and>
   (generate_html tpl now r anonymize lang = Inr html \<longrightarrow>
      (\<forall>w \<in> set (get_or (r_work r) []). has_required_keys w)) \<and>
   ((\<forall>w \<in> set (get_or (r_work r) []). has_required_keys w \<and> end_readable w) \<and>
    sidebar_of r anonymize lang = Inr s \<longrightarrow>
      (\<exists>html. generate_html tpl now r anonymize lang = Inr html))"
proof (intro conjI impI)
  show "generate_html tpl now (work_only [nameless_entry]) False lang = Inl AttributeError"
    by (rule nameless_generate)
  show "generate_html tpl now r anonymize lang = Inl KeyError"
    if "(\<exists>w \<in> set (get_or (r_work r) []). \<not> has_required_keys w) \<and>
        (\<forall>w \<in> set (get_or (r_work r) []). end_readable w)"
    using that missing_key_raises_KeyError [of r tpl now anonymize lang] by (elim conjE)
  show "\<forall>w \<in> set (get_or (r_work r) []). has_required_keys w"
    if "generate_html tpl now r anonymize lang = Inr html"
    using that by (rule generate_html_Inr)
  show "\<exists>html. generate_html tpl now r anonymize lang = Inr html"
    if "(\<forall>w \<in> set (get_or (r_work r) []). has_required_keys w \<and> end_readable w) \<and>
        sidebar_of r anonymize lang = Inr s"
    using that generate_html_returns [of r anonymize lang s tpl now] by (elim conjE)
qed

theorem missing_key_raises_witness:
  "undated_entry \<in> set (get_or (r_work (work_only [undated_entry])) []) \<and>
   \<not> has_required_keys undated_entry \<and> end_readable undated_entry \<and>
   generate_html [] (2026, 11) (work_only [undated_entry]) True Fr = Inl KeyError"
proof -
  have w: "get_or (r_work (work_only [undated_entry])) [] = [undated_entry]"
    by (simp add: work_only_def get_or_def)
  have k: "\<not> has_required_keys undated_entry"
    by (simp add: has_required_keys_def undated_entry_def)
  have e: "end_readable undated_entry"
    by (simp add: end_readable_def undated_entry_def get_nullable_def falsy_def)
  have p: "(\<exists>w \<in> set (get_or (r_work (work_only [undated_entry])) []). \<not> has_required_keys w) \<and>
      (\<forall>w \<in> set (get_or (r_work (work_only [undated_entry])) []). end_readable w)"
    unfolding w using k e by simp
  have "(\<exists>w \<in> set (get_or (r_work (work_only [undated_entry])) []). \<not> has_required_keys w) \<and>
      (\<forall>w \<in> set (get_or (r_work (work_only [undated_entry])) []). end_readable w) \<longrightarrow>
      generate_html [] (2026, 11) (work_only [undated_entry]) True Fr = Inl KeyError"
    by (rule missing_key_raises [where r = "work_only [undated_entry]" and tpl = "[]"
          and now = "(2026, 11)" and anonymize = True and lang = Fr,
          THEN conjunct2, THEN conjunct1])
  then have g: "generate_html [] (2026, 11) (work_only [undated_entry]) True Fr = Inl KeyError"
    using p by (rule mp)
  have m: "undated_entry \<in> set (get_or (r_work (work_only [undated_entry])) [])"
    unfolding w by simp
  from m k e g show ?thesis by (intro conjI)
qed

end
